theory Spec2Isabelle
  imports Complex_Main "HOL-Library.Sublist" "HOL-Library.Char_ord" "HOL-Library.List_Lexorder"
begin

section \<open>Data model\<close>

text \<open>
  The notebook keeps the transactions in one pandas DataFrame with the columns
  Date, Description, Category, Income/Expense and Amount. The first four columns have
  dtype object: a cell holds a Python str, or NaN where the loader found a blank field
  (pandas.read_csv reads a blank field as NaN; gspread's get_all_records reads a blank
  cell as the empty string; the notebook's \<open>df.info()\<close> counts the cells of each column
  that are not null).

  Amount is a numeric column, of dtype float64 or int64. A value of such a column, and
  the result of a sum over it, is a \<open>number\<close>: an int64 value; a finite float64 value
  \<open>Float64 m e\<close>, the number \<open>m * 2 ^ e\<close> with \<open>\<bar>m\<bar> < 2 ^ 53\<close> and
  \<open>- 1074 \<le> e \<le> 971\<close>, where \<open>2 ^ 52 \<le> \<bar>m\<bar>\<close> unless \<open>e = - 1074\<close>, and zero is
  \<open>Float64 0 0\<close>; one of the two infinities of float64; or its NaN, which is also what
  read_csv makes of a blank Amount field. The values of one column have one dtype.

  Python strings are modelled as HOL strings, so the characters are the code points
  below 256.
\<close>

datatype cell = Str string | NaN

datatype number = Int64 int | Float64 int int | PosInf | NegInf | NotANumber

record transaction =
  Date :: cell
  Description :: cell
  Category :: cell
  Income_Expense :: cell
  Amount :: number

text \<open>A DataFrame with its default RangeIndex: row \<open>i\<close> is the row labelled \<open>i\<close>.\<close>

type_synonym dataframe = "transaction list"

section \<open>Python strings\<close>

abbreviation nl :: string where "nl \<equiv> [CHR 0x0A]"
abbreviation dq :: string where "dq \<equiv> [CHR 0x22]"
abbreviation sq :: string where "sq \<equiv> [CHR 0x27]"

text \<open>\<open>str.isspace\<close> on one character, for the code points below 256.\<close>

definition isspace :: "char \<Rightarrow> bool" where
  "isspace c = (of_char c \<in> {9, 10, 11, 12, 13, 28, 29, 30, 31, 32, 133, 160 :: nat})"

text \<open>\<open>s.strip()\<close>: leading and trailing whitespace removed.\<close>

definition strip :: "string \<Rightarrow> string" where
  "strip s = rev (dropWhile isspace (rev (dropWhile isspace s)))"

text \<open>\<open>s.lower()\<close>: A to Z and the upper-case letters of Latin-1 move 32 code points up.\<close>

definition lower_char :: "char \<Rightarrow> char" where
  "lower_char c =
     (let n = (of_char c :: nat)
      in if (65 \<le> n \<and> n \<le> 90) \<or> (192 \<le> n \<and> n \<le> 222 \<and> n \<noteq> 215) then char_of (n + 32) else c)"

definition lower :: "string \<Rightarrow> string" where
  "lower s = map lower_char s"

text \<open>
  \<open>s.replace(old, new)\<close>: the occurrences of \<open>old\<close> are found from left to right
  without overlap and each is replaced by \<open>new\<close>. An empty \<open>old\<close> matches before every
  character and at the end.
\<close>

function replace_from :: "string \<Rightarrow> string \<Rightarrow> string \<Rightarrow> string" where
  "replace_from old new s =
     (if s = [] \<or> old = [] then s
      else if prefix old s then new @ replace_from old new (drop (length old) s)
      else hd s # replace_from old new (tl s))"
  by pat_completeness auto
termination
  by (relation "measure (\<lambda>(old, new, s). length s)") auto

definition replace :: "string \<Rightarrow> string \<Rightarrow> string \<Rightarrow> string" where
  "replace old new s =
     (if old = [] then new @ concat (map (\<lambda>c. c # new) s) else replace_from old new s)"

text \<open>\<open>str(i)\<close> of an int, and the text an f-string puts for a cell or for an optional argument.\<close>

fun digits :: "nat \<Rightarrow> string" where
  "digits n = (if n < 10 then [char_of (48 + n)] else digits (n div 10) @ [char_of (48 + n mod 10)])"

definition str_int :: "int \<Rightarrow> string" where
  "str_int i = (if i < 0 then ''-'' @ digits (nat (- i)) else digits (nat i))"

fun str_cell :: "cell \<Rightarrow> string" where
  "str_cell (Str s) = s"
| "str_cell NaN = ''nan''"

fun str_or_None :: "string option \<Rightarrow> string" where
  "str_or_None None = ''None''"
| "str_or_None (Some s) = s"

text \<open>
  \<open>template.format(*args)\<close> for the replacement fields the notebook uses: \<open>{{\<close> and
  \<open>}}\<close> stand for one brace, \<open>{d}\<close> with one decimal digit \<open>d\<close> for the argument at that
  position. The result is None where format raises (a single brace, a position past the
  arguments); other forms of replacement field are outside this model and give None too.
\<close>

fun py_format :: "string \<Rightarrow> string list \<Rightarrow> string option" where
  "py_format [] args = Some []"
| "py_format (c # cs) args =
     (if c = CHR ''{'' then
        (case cs of
           [] \<Rightarrow> None
         | d # ds \<Rightarrow>
             if d = CHR ''{'' then map_option ((#) CHR ''{'') (py_format ds args)
             else (case ds of
                     [] \<Rightarrow> None
                   | e # es \<Rightarrow>
                       if e = CHR ''}'' \<and> 48 \<le> (of_char d :: nat) \<and> (of_char d :: nat) \<le> 57
                          \<and> of_char d - 48 < length args
                       then map_option ((@) (args ! (of_char d - 48))) (py_format es args)
                       else None))
      else if c = CHR ''}'' then
        (case cs of
           [] \<Rightarrow> None
         | d # ds \<Rightarrow> if d = CHR ''}'' then map_option ((#) CHR ''}'') (py_format ds args) else None)
      else map_option ((#) c) (py_format cs args))"

section \<open>The run's state and the world outside\<close>

text \<open>
  Every raise of the notebook and every exception of a library call is a value: \<open>Inl\<close>
  of the sum \<open>error + 'a\<close>. \<open>External\<close> is an exception raised inside a library or a
  remote service (openai, gspread, pandas, pdfkit), with its message.
\<close>

datatype error = ValueError string | FileNotFoundError string | External string

text \<open>What the run asks of the world outside, in the order it asks.\<close>

datatype event =
    PathExists string
  | ReadCsv string
  | GoogleSheets "string option" "string option"
  | ChatCompletion string "(string \<times> string) list"
  | PdfFromString string string "(string \<times> string) list"
  | Print string

text \<open>
  The state of a run: the process environment, the file system (path to contents), the
  one DataFrame object that the name \<open>df\<close> is bound to (categorize_transactions updates
  it in place), and the events so far.
\<close>

record world =
  environ :: "string \<rightharpoonup> string"
  files :: "string \<rightharpoonup> string"
  frame :: dataframe
  trace :: "event list"

text \<open>
  The libraries and services the notebook calls are parameters of the model:
  \<^item> \<open>dotenv_values\<close>: the variables of the .env file that load_dotenv() finds;
  \<^item> \<open>chat_create\<close>: openai.ChatCompletion.create followed by
    \<open>.choices[0].message.content\<close>, as a function of the number of earlier calls, the
    model name and the messages (role and content): the text of the reply, or the
    exception (a reply without a text counts as one, since the notebook calls a method
    of the text);
  \<^item> \<open>read_csv\<close>: what pandas.read_csv makes of a file's contents;
  \<^item> \<open>sheet_records\<close>: the gspread calls of load_from_google_sheets, from the
    credentials path, the sheet's URL and the file system;
  \<^item> \<open>from_string\<close>: pdfkit.from_string on the HTML text, the output path and the
    options: its exception if it raises, and the file system as it leaves it;
  \<^item> \<open>series_sum\<close>: \<open>Series.sum()\<close> of pandas on the Amount of the selected rows,
    from their values in row order: an int64 or float64 sum, with the rounding or the
    wrap-around of the dtype and with NaN skipped, in the order in which pandas adds;
  \<^item> \<open>group_sum\<close>: the sum that \<open>groupby(...)['Amount'].sum()\<close> computes for one
    group, from the Amount of the rows of the group in row order;
  \<^item> \<open>to_string\<close>: \<open>df.to_string(index=False)\<close>;
  \<^item> \<open>format_2f\<close>: the format specification \<open>:.2f\<close>;
  \<^item> \<open>dict_repr\<close>: the text of \<open>category_spending.to_dict()\<close> in an f-string.
\<close>

record externals =
  dotenv_values :: "string \<rightharpoonup> string"
  chat_create :: "nat \<Rightarrow> string \<Rightarrow> (string \<times> string) list \<Rightarrow> error + string"
  read_csv :: "string \<Rightarrow> error + dataframe"
  sheet_records :: "string option \<Rightarrow> string option \<Rightarrow> (string \<rightharpoonup> string) \<Rightarrow> error + dataframe"
  from_string :: "string \<Rightarrow> string \<Rightarrow> (string \<times> string) list \<Rightarrow> (string \<rightharpoonup> string)
                    \<Rightarrow> error option \<times> (string \<rightharpoonup> string)"
  series_sum :: "number list \<Rightarrow> number"
  group_sum :: "number list \<Rightarrow> number"
  to_string :: "dataframe \<Rightarrow> string"
  format_2f :: "number \<Rightarrow> string"
  dict_repr :: "(string \<times> number) list \<Rightarrow> string"

type_synonym 'a prog = "world \<Rightarrow> (error + 'a) \<times> world"

text \<open>One statement after another: an exception of the first ends the sequence.\<close>

definition and_then :: "'a prog \<Rightarrow> ('a \<Rightarrow> 'b prog) \<Rightarrow> 'b prog" where
  "and_then m f w = (case m w of (Inl e, w') \<Rightarrow> (Inl e, w') | (Inr x, w') \<Rightarrow> f x w')"

definition emit :: "event \<Rightarrow> world \<Rightarrow> world" where
  "emit e w = w\<lparr>trace := trace w @ [e]\<rparr>"

text \<open>\<open>os.getenv(key)\<close> and \<open>os.getenv(key, default)\<close>.\<close>

definition getenv :: "world \<Rightarrow> string \<Rightarrow> string option" where
  "getenv w key = environ w key"

definition getenv_default :: "world \<Rightarrow> string \<Rightarrow> string \<Rightarrow> string" where
  "getenv_default w key dflt = (case environ w key of None \<Rightarrow> dflt | Some v \<Rightarrow> v)"

text \<open>One chat completion: the reply of the service to the call with this number.\<close>

fun is_chat :: "event \<Rightarrow> bool" where
  "is_chat (ChatCompletion m ms) = True"
| "is_chat _ = False"

definition chat_calls :: "world \<Rightarrow> nat" where
  "chat_calls w = length (filter is_chat (trace w))"

definition ChatCompletion_create :: "externals \<Rightarrow> string \<Rightarrow> (string \<times> string) list \<Rightarrow> string prog" where
  "ChatCompletion_create X model messages w =
     (chat_create X (chat_calls w) model messages, emit (ChatCompletion model messages) w)"

section \<open>Setup cell\<close>

text \<open>
  \<open>load_dotenv()\<close> adds the variables of the .env file to the environment; a variable
  that is already set keeps its value.
\<close>

definition load_dotenv :: "externals \<Rightarrow> world \<Rightarrow> world" where
  "load_dotenv X w = w\<lparr>environ := dotenv_values X ++ environ w\<rparr>"

text \<open>
  \<^verbatim>\<open>
  openai.api_key = os.getenv("OPENAI_API_KEY")
  if not openai.api_key:
      raise ValueError("OpenAI API key is not set. Please check your .env file.")
  \<close>
  \<open>not\<close> holds of None and of the empty string.
\<close>

definition setup_cell :: "externals \<Rightarrow> string prog" where
  "setup_cell X w =
     (let w1 = load_dotenv X w
      in case getenv w1 ''OPENAI_API_KEY'' of
           None \<Rightarrow> (Inl (ValueError ''OpenAI API key is not set. Please check your .env file.''), w1)
         | Some api_key \<Rightarrow>
             if api_key = [] then (Inl (ValueError ''OpenAI API key is not set. Please check your .env file.''), w1)
             else (Inr api_key, w1))"

section \<open>Data Loader\<close>

definition load_from_google_sheets :: "externals \<Rightarrow> dataframe prog" where
  "load_from_google_sheets X w =
     (let creds = getenv w ''GOOGLE_APPLICATION_CREDENTIALS'';
          url = getenv w ''DUMMY_DATA_SPREADSHEET''
      in (sheet_records X creds url (files w), emit (GoogleSheets creds url) w))"

text \<open>
  \<^verbatim>\<open>
  def load_from_csv():
      csv_path = '../data/data.csv'
      if not os.path.exists(csv_path):
          raise FileNotFoundError(f"The file {csv_path} does not exist.")
      return pd.read_csv(csv_path)
  \<close>
\<close>

definition csv_path :: string where
  "csv_path = ''../data/data.csv''"

definition load_from_csv :: "externals \<Rightarrow> dataframe prog" where
  "load_from_csv X w =
     (let w1 = emit (PathExists csv_path) w
      in case files w csv_path of
           None \<Rightarrow> (Inl (FileNotFoundError (''The file '' @ csv_path @ '' does not exist.'')), w1)
         | Some contents \<Rightarrow> (read_csv X contents, emit (ReadCsv csv_path) w1))"

text \<open>
  \<^verbatim>\<open>
  def load_data():
      if os.getenv("USE_GOOGLE_SHEETS", "false").lower() == "true":
          return load_from_google_sheets()
      else:
          return load_from_csv()
  \<close>
\<close>

definition use_google_sheets :: "world \<Rightarrow> bool" where
  "use_google_sheets w = (lower (getenv_default w ''USE_GOOGLE_SHEETS'' ''false'') = ''true'')"

definition load_data :: "externals \<Rightarrow> dataframe prog" where
  "load_data X w = (if use_google_sheets w then load_from_google_sheets X w else load_from_csv X w)"

section \<open>Transaction Classifier\<close>

definition classifier_system_prompt :: string where
  "classifier_system_prompt =
     ''You are a helpful financial assistant. Categorize transactions into one of the following categories: Groceries, Utilities, Rent, Entertainment, Transportation, Dining Out, Miscellaneous, Health & Fitness, Housing, Investments, Insurance, Charity, and Income.''"

definition classifier_messages :: "cell \<Rightarrow> (string \<times> string) list" where
  "classifier_messages description =
     [(''system'', classifier_system_prompt),
      (''user'', ''Categorize the following transaction: '' @ sq @ str_cell description @ sq
                 @ ''. Respond with the category name only.'')]"

text \<open>
  \<^verbatim>\<open>
  def categorize_transaction(description):
      completion = openai.ChatCompletion.create(model="gpt-4o-mini", messages=[...])
      return completion.choices[0].message.content.strip()
  \<close>
\<close>

definition categorize_transaction :: "externals \<Rightarrow> cell \<Rightarrow> string prog" where
  "categorize_transaction X description =
     and_then (ChatCompletion_create X ''gpt-4o-mini'' (classifier_messages description))
       (\<lambda>content w. (Inr (strip content), w))"

text \<open>
  \<^verbatim>\<open>
  def categorize_transactions(df):
      for index, row in df[df['Category'] == ''].iterrows():
          category = categorize_transaction(row['Description'])
          df.at[index, 'Category'] = category
      return df
  \<close>
  The selection \<open>df[df['Category'] == '']\<close> is made once, before the loop: the rows whose
  Category is the empty string, each with its index label. A NaN cell is not equal to
  the empty string. The loop writes into the DataFrame of the state, row by row, so an
  exception leaves the rows written so far.
\<close>

definition uncategorized :: "dataframe \<Rightarrow> (nat \<times> transaction) list" where
  "uncategorized df = filter (\<lambda>(index, row). Category row = Str []) (enumerate 0 df)"

fun categorize_rows :: "externals \<Rightarrow> (nat \<times> transaction) list \<Rightarrow> unit prog" where
  "categorize_rows X [] w = (Inr (), w)"
| "categorize_rows X ((index, row) # rest) w =
     (case categorize_transaction X (Description row) w of
        (Inl e, w') \<Rightarrow> (Inl e, w')
      | (Inr category, w') \<Rightarrow>
          categorize_rows X rest
            (w'\<lparr>frame := (frame w')[index := (frame w' ! index)\<lparr>Category := Str category\<rparr>]\<rparr>))"

definition categorize_transactions :: "externals \<Rightarrow> dataframe prog" where
  "categorize_transactions X w =
     and_then (categorize_rows X (uncategorized (frame w))) (\<lambda>u w'. (Inr (frame w'), w')) w"

section \<open>Aggregator and Summary Generator\<close>

text \<open>
  \<^verbatim>\<open>total_spent = df[df['Income/Expense'] == 'Expense']['Amount'].sum()\<close>
\<close>

definition total_spent :: "externals \<Rightarrow> dataframe \<Rightarrow> number" where
  "total_spent X df = series_sum X (map Amount (filter (\<lambda>r. Income_Expense r = Str ''Expense'') df))"

text \<open>
  \<^verbatim>\<open>total_income = df[df['Income/Expense'] == 'Income']['Amount'].sum()\<close>
\<close>

definition total_income :: "externals \<Rightarrow> dataframe \<Rightarrow> number" where
  "total_income X df = series_sum X (map Amount (filter (\<lambda>r. Income_Expense r = Str ''Income'') df))"

text \<open>
  \<open>groupby('Category')['Amount'].sum()\<close>: one entry per distinct key, the keys in
  sorted order (sort=True is the default), each with the group sum of the Amount of the
  rows of that key, in row order. Rows whose key is NaN belong to no group (dropna=True is
  the default), so they are left out of the result.
\<close>

definition group_keys :: "dataframe \<Rightarrow> string list" where
  "group_keys rows = sort (remdups (concat (map (\<lambda>r. case Category r of Str s \<Rightarrow> [s] | NaN \<Rightarrow> []) rows)))"

definition groupby_Category_sum :: "externals \<Rightarrow> dataframe \<Rightarrow> (string \<times> number) list" where
  "groupby_Category_sum X rows =
     map (\<lambda>k. (k, group_sum X (map Amount (filter (\<lambda>r. Category r = Str k) rows)))) (group_keys rows)"

text \<open>
  \<^verbatim>\<open>category_spending = df[df['Income/Expense'] == 'Expense'].groupby('Category')['Amount'].sum()\<close>
\<close>

definition category_spending :: "externals \<Rightarrow> dataframe \<Rightarrow> (string \<times> number) list" where
  "category_spending X df = groupby_Category_sum X (filter (\<lambda>r. Income_Expense r = Str ''Expense'') df)"

text \<open>
  \<^verbatim>\<open>
  def generate_financial_summary(df):
      total_spent = ...; total_income = ...; category_spending = ...
      completion = openai.ChatCompletion.create(model="gpt-4o-mini", messages=[...])
      return completion.choices[0].message.content.strip()
  \<close>
\<close>

definition summary_messages :: "externals \<Rightarrow> dataframe \<Rightarrow> (string \<times> string) list" where
  "summary_messages X df =
     [(''system'', ''You are a helpful financial assistant. Generate a concise financial summary based on the provided data.''),
      (''user'', ''Generate a financial summary based on the following data:'' @ nl
                 @ ''Total Income: $'' @ format_2f X (total_income X df) @ nl
                 @ ''Total Expenses: $'' @ format_2f X (total_spent X df) @ nl
                 @ ''Spending by category: '' @ dict_repr X (category_spending X df))]"

definition generate_financial_summary :: "externals \<Rightarrow> string prog" where
  "generate_financial_summary X w =
     and_then (ChatCompletion_create X ''gpt-4o-mini'' (summary_messages X (frame w)))
       (\<lambda>content w'. (Inr (strip content), w')) w"

section \<open>Advice Generator\<close>

definition advice_prompt :: "externals \<Rightarrow> dataframe \<Rightarrow> int option \<Rightarrow> string option \<Rightarrow> string option \<Rightarrow> string" where
  "advice_prompt X df age lifestyle hobbies =
     nl @
     ''    Based on the following transaction data:'' @ nl @
     nl @
     ''    '' @ to_string X df @ nl @
     nl @
     ''    And considering the following personal information:'' @ nl @
     ''    Age: '' @ str_or_None (map_option str_int age) @ nl @
     ''    Lifestyle: '' @ str_or_None lifestyle @ nl @
     ''    Hobbies: '' @ str_or_None hobbies @ nl @
     nl @
     ''    Please provide personalized financial advice. Include suggestions for budgeting, saving, and potential areas for improvement.'' @ nl @
     ''    ''"

definition generate_personalized_advice ::
  "externals \<Rightarrow> int option \<Rightarrow> string option \<Rightarrow> string option \<Rightarrow> string prog" where
  "generate_personalized_advice X age lifestyle hobbies w =
     ChatCompletion_create X ''gpt-4o-mini''
       [(''system'', ''You are a helpful financial advisor.''),
        (''user'', advice_prompt X (frame w) age lifestyle hobbies)] w"

section \<open>Report Renderer\<close>

definition html_template :: string where
  "html_template =
     nl @
     ''    <!DOCTYPE html>'' @ nl @
     ''    <html>'' @ nl @
     ''    <head>'' @ nl @
     ''        <meta charset='' @ dq @ ''UTF-8'' @ dq @ ''>'' @ nl @
     ''        <title>Financial Report</title>'' @ nl @
     ''        <style>'' @ nl @
     ''            body {{ font-family: Arial, sans-serif; line-height: 1.6; color: #333; }}'' @ nl @
     ''            h1 {{ color: #2c3e50; text-align: center; }}'' @ nl @
     ''            h2 {{ color: #34495e; }}'' @ nl @
     ''            h3 {{ color: #2980b9; }}'' @ nl @
     ''            .section {{ margin-bottom: 20px; }}'' @ nl @
     ''            ul {{ padding-left: 20px; }}'' @ nl @
     ''        </style>'' @ nl @
     ''    </head>'' @ nl @
     ''    <body>'' @ nl @
     ''        <h1>Financial Report</h1>'' @ nl @
     ''        '' @ nl @
     ''        <div class='' @ dq @ ''section'' @ dq @ ''>'' @ nl @
     ''            <h2>Financial Summary</h2>'' @ nl @
     ''            {0}'' @ nl @
     ''        </div>'' @ nl @
     ''        '' @ nl @
     ''        <div class='' @ dq @ ''section'' @ dq @ ''>'' @ nl @
     ''            <h2>Personalized Financial Advice</h2>'' @ nl @
     ''            {1}'' @ nl @
     ''        </div>'' @ nl @
     ''    </body>'' @ nl @
     ''    </html>'' @ nl @
     ''    ''"

definition pdf_options :: "(string \<times> string) list" where
  "pdf_options =
     [(''page-size'', ''A4''),
      (''margin-top'', ''0.75in''),
      (''margin-right'', ''0.75in''),
      (''margin-bottom'', ''0.75in''),
      (''margin-left'', ''0.75in''),
      (''encoding'', ''UTF-8'')]"

text \<open>
  \<^verbatim>\<open>
  html_content = """...""".format(
      summary.replace('**', '').replace('###', '<h3>').replace('\n', '<br>'),
      advice.replace('**', '').replace('###', '<h3>').replace('\n', '<br>'))
  \<close>
\<close>

definition html_content :: "string \<Rightarrow> string \<Rightarrow> string option" where
  "html_content summary advice =
     py_format html_template
       [replace nl ''<br>'' (replace ''###'' ''<h3>'' (replace ''**'' [] summary)),
        replace nl ''<br>'' (replace ''###'' ''<h3>'' (replace ''**'' [] advice))]"

text \<open>
  \<^verbatim>\<open>
  pdfkit.from_string(html_content, output_path, options=options)
  print(f"PDF report generated: {output_path}")
  \<close>
  The output file is written by pdfkit alone; the function has no handler and no cleanup,
  so when pdfkit raises the file system stays as pdfkit left it. The first branch is the
  exception of \<open>format\<close>; the template never gives it (lemma \<open>html_content_eq\<close>).
\<close>

definition create_pdf_report :: "externals \<Rightarrow> string \<Rightarrow> string \<Rightarrow> string \<Rightarrow> unit prog" where
  "create_pdf_report X summary advice output_path w =
     (case html_content summary advice of
        None \<Rightarrow> (Inl (ValueError ''Single brace encountered in format string''), w)
      | Some html \<Rightarrow>
          (case from_string X html output_path pdf_options (files w) of
             (err, files') \<Rightarrow>
               (let w1 = emit (PdfFromString html output_path pdf_options) (w\<lparr>files := files'\<rparr>)
                in case err of
                     Some e \<Rightarrow> (Inl e, w1)
                   | None \<Rightarrow> (Inr (), emit (Print (''PDF report generated: '' @ output_path)) w1))))"

text \<open>
  The three fixed parts of the page as \<open>format\<close> leaves them: the template up to
  \<open>{0}\<close>, between \<open>{0}\<close> and \<open>{1}\<close>, and after \<open>{1}\<close>, each doubled brace now
  a single one.
\<close>

definition html_head :: string where
  "html_head =
     nl @
     ''    <!DOCTYPE html>'' @ nl @
     ''    <html>'' @ nl @
     ''    <head>'' @ nl @
     ''        <meta charset='' @ dq @ ''UTF-8'' @ dq @ ''>'' @ nl @
     ''        <title>Financial Report</title>'' @ nl @
     ''        <style>'' @ nl @
     ''            body { font-family: Arial, sans-serif; line-height: 1.6; color: #333; }'' @ nl @
     ''            h1 { color: #2c3e50; text-align: center; }'' @ nl @
     ''            h2 { color: #34495e; }'' @ nl @
     ''            h3 { color: #2980b9; }'' @ nl @
     ''            .section { margin-bottom: 20px; }'' @ nl @
     ''            ul { padding-left: 20px; }'' @ nl @
     ''        </style>'' @ nl @
     ''    </head>'' @ nl @
     ''    <body>'' @ nl @
     ''        <h1>Financial Report</h1>'' @ nl @
     ''        '' @ nl @
     ''        <div class='' @ dq @ ''section'' @ dq @ ''>'' @ nl @
     ''            <h2>Financial Summary</h2>'' @ nl @
     ''            ''"

definition html_mid :: string where
  "html_mid =
     nl @
     ''        </div>'' @ nl @
     ''        '' @ nl @
     ''        <div class='' @ dq @ ''section'' @ dq @ ''>'' @ nl @
     ''            <h2>Personalized Financial Advice</h2>'' @ nl @
     ''            ''"

definition html_tail :: string where
  "html_tail =
     nl @
     ''        </div>'' @ nl @
     ''    </body>'' @ nl @
     ''    </html>'' @ nl @
     ''    ''"

text \<open>
  The substitutions in the words of the specification: strip the bold marker, turn
  the heading marker into a heading tag, turn each line break into a line-break tag.
\<close>

definition spec_substitutions :: "string \<Rightarrow> string" where
  "spec_substitutions s = replace nl ''<br>'' (replace ''###'' ''<h3>'' (replace ''**'' [] s))"

section \<open>The notebook, cell by cell\<close>

text \<open>
  The code cells in their order; an exception ends the run. The package installation,
  the imports and the cells' own print calls (which only display values) are left out.
\<close>

definition notebook :: "externals \<Rightarrow> unit prog" where
  "notebook X =
     and_then (setup_cell X) (\<lambda>api_key.
     and_then (load_data X) (\<lambda>df.
     and_then (\<lambda>w. (Inr (), w\<lparr>frame := df\<rparr>)) (\<lambda>u.
     and_then (categorize_transactions X) (\<lambda>df.
     and_then (generate_financial_summary X) (\<lambda>summary.
     and_then (generate_personalized_advice X (Some 30) (Some ''Urban'') (Some ''Reading, Traveling'')) (\<lambda>advice.
     create_pdf_report X summary advice ''financial_report.pdf''))))))"

section \<open>Notions used in the statements\<close>

text \<open>The table without the contents of its Category column.\<close>

definition other_columns :: "dataframe \<Rightarrow> dataframe" where
  "other_columns df = map (\<lambda>r. r\<lparr>Category := NaN\<rparr>) df"

text \<open>
  The rational number that a number stands for. NaN counts as nothing, since the sums
  skip it; an infinity has no such number and is given 0 here.
\<close>

definition pow2 :: "int \<Rightarrow> rat" where
  "pow2 k = (if 0 \<le> k then 2 ^ nat k else 1 / 2 ^ nat (- k))"

fun num_value :: "number \<Rightarrow> rat" where
  "num_value (Int64 i) = of_int i"
| "num_value (Float64 m e) = of_int m * pow2 e"
| "num_value x = 0"

fun is_finite :: "number \<Rightarrow> bool" where
  "is_finite (Int64 i) = True"
| "is_finite (Float64 m e) = True"
| "is_finite x = False"

text \<open>
  A sum that neither rounds nor wraps around nor overflows: its result is a finite number
  and stands for the exact sum of the values.
\<close>

definition exact_sum :: "(number list \<Rightarrow> number) \<Rightarrow> number list \<Rightarrow> bool" where
  "exact_sum f xs = (is_finite (f xs) \<and> num_value (f xs) = sum_list (map num_value xs))"

text \<open>The events a call added to the trace.\<close>

definition new_events :: "world \<Rightarrow> world \<Rightarrow> event list" where
  "new_events w w' = drop (length (trace w)) (trace w')"

text \<open>Which of the two sources an event consults.\<close>

fun consults_file :: "event \<Rightarrow> bool" where
  "consults_file (PathExists p) = True"
| "consults_file (ReadCsv p) = True"
| "consults_file _ = False"

fun consults_sheet :: "event \<Rightarrow> bool" where
  "consults_sheet (GoogleSheets c u) = True"
| "consults_sheet _ = False"

section \<open>Sample data\<close>

text \<open>
  float64 arithmetic for the examples. \<open>round_scaled s e\<close> is the float64 nearest to
  \<open>s * 2 ^ e\<close>, ties to the even mantissa, an infinity from \<open>2 ^ 1024\<close> on;
  \<open>float64_of p d\<close> is the float64 nearest to the fraction \<open>p / d\<close> (for \<open>0 < d\<close>), which
  is how a decimal such as 13.99 is read; \<open>add64\<close> is the addition of float64.
\<close>

fun bits :: "nat \<Rightarrow> nat" where
  "bits n = (if n = 0 then 0 else Suc (bits (n div 2)))"

definition round_shift :: "int \<Rightarrow> int \<Rightarrow> int" where
  "round_shift a e = max (int (bits (nat a)) - 53) (- 1074 - e)"

definition round_mantissa :: "int \<Rightarrow> int \<Rightarrow> int" where
  "round_mantissa a sh =
     (if sh \<le> 0 then a * 2 ^ nat (- sh)
      else if 2 ^ nat (sh - 1) < a mod 2 ^ nat sh
              \<or> (a mod 2 ^ nat sh = 2 ^ nat (sh - 1) \<and> odd (a div 2 ^ nat sh))
           then a div 2 ^ nat sh + 1
           else a div 2 ^ nat sh)"

definition make_float64 :: "bool \<Rightarrow> int \<Rightarrow> int \<Rightarrow> number" where
  "make_float64 positive m e =
     (if 971 < e then (if positive then PosInf else NegInf)
      else if m = 0 then Float64 0 0
      else Float64 (if positive then m else - m) e)"

definition round_scaled :: "int \<Rightarrow> int \<Rightarrow> number" where
  "round_scaled s e =
     (if s = 0 then Float64 0 0
      else if round_mantissa \<bar>s\<bar> (round_shift \<bar>s\<bar> e) = 2 ^ 53
           then make_float64 (0 < s) (2 ^ 52) (e + round_shift \<bar>s\<bar> e + 1)
           else make_float64 (0 < s) (round_mantissa \<bar>s\<bar> (round_shift \<bar>s\<bar> e)) (e + round_shift \<bar>s\<bar> e))"

definition ratio_scale :: "int \<Rightarrow> int \<Rightarrow> int" where
  "ratio_scale a d = int (bits (nat a)) - int (bits (nat d)) - 55"

definition ratio_digits :: "int \<Rightarrow> int \<Rightarrow> int \<Rightarrow> int" where
  "ratio_digits a d e0 =
     (if e0 < 0
      then 2 * (a * 2 ^ nat (- e0) div d) + (if a * 2 ^ nat (- e0) mod d = 0 then 0 else 1)
      else 2 * (a div (d * 2 ^ nat e0)) + (if a mod (d * 2 ^ nat e0) = 0 then 0 else 1))"

definition float64_of :: "int \<Rightarrow> int \<Rightarrow> number" where
  "float64_of p d =
     (if 0 < p then round_scaled (ratio_digits p d (ratio_scale p d)) (ratio_scale p d - 1)
      else round_scaled (- ratio_digits (- p) d (ratio_scale (- p) d)) (ratio_scale (- p) d - 1))"

fun add64 :: "number \<Rightarrow> number \<Rightarrow> number" where
  "add64 (Float64 m1 e1) (Float64 m2 e2) =
     round_scaled (m1 * 2 ^ nat (e1 - min e1 e2) + m2 * 2 ^ nat (e2 - min e1 e2)) (min e1 e2)"
| "add64 NotANumber y = NotANumber"
| "add64 x NotANumber = NotANumber"
| "add64 PosInf NegInf = NotANumber"
| "add64 NegInf PosInf = NotANumber"
| "add64 PosInf y = PosInf"
| "add64 x PosInf = PosInf"
| "add64 NegInf y = NegInf"
| "add64 x NegInf = NegInf"
| "add64 x y = NotANumber"

text \<open>
  The sum of the values of a float64 column for the examples: NaN skipped, the other
  values added from left to right, starting from zero.
\<close>

definition float64_sum :: "number list \<Rightarrow> number" where
  "float64_sum xs = foldl add64 (Float64 0 0) (filter (\<lambda>x. x \<noteq> NotANumber) xs)"

text \<open>
  A table as read_csv gives it, with an empty-string and a missing Category among its
  rows.
\<close>

definition sample_frame :: dataframe where
  "sample_frame =
     [\<lparr>Date = Str ''2024-09-01'', Description = Str ''Salary from ABC Corp'',
       Category = Str ''Income'', Income_Expense = Str ''Income'', Amount = float64_of 6000 1\<rparr>,
      \<lparr>Date = Str ''2024-09-02'', Description = Str ''Grocery shopping at Coles'',
       Category = Str [], Income_Expense = Str ''Expense'', Amount = float64_of 401 2\<rparr>,
      \<lparr>Date = Str ''2024-09-03'', Description = Str ''Sydney Water Bill'',
       Category = NaN, Income_Expense = Str ''Expense'', Amount = float64_of 323 4\<rparr>,
      \<lparr>Date = Str ''2024-09-04'', Description = Str ''Netflix Subscription'',
       Category = Str ''Entertainment'', Income_Expense = Str ''Expense'', Amount = float64_of 1399 100\<rparr>]"

definition sample_world :: world where
  "sample_world =
     \<lparr>environ = [''OPENAI_API_KEY'' \<mapsto> ''sk-test''], files = Map.empty,
      frame = sample_frame, trace = []\<rparr>"

text \<open>
  A world outside for the examples: the service answers every request with a padded
  label that is not in the list of the system prompt; the sums are float64 sums; pdfkit
  writes the document.
\<close>

definition sample_externals :: externals where
  "sample_externals =
     \<lparr>dotenv_values = Map.empty,
      chat_create = (\<lambda>k model messages. Inr ('' Fitness'' @ nl)),
      read_csv = (\<lambda>contents. Inr sample_frame),
      sheet_records = (\<lambda>creds url fs. Inr sample_frame),
      from_string = (\<lambda>html path options fs. (None, fs(path \<mapsto> ''%PDF-1.4''))),
      series_sum = float64_sum,
      group_sum = float64_sum,
      to_string = (\<lambda>df. ''(table)''),
      format_2f = (\<lambda>x. ''0.00''),
      dict_repr = (\<lambda>m. ''{}'')\<rparr>"

text \<open>
  Rows whose amounts float64 adds without rounding: four of the five rows that the
  notebook prints with \<open>df.head()\<close>, and a second row of Groceries.
\<close>

definition exact_frame :: dataframe where
  "exact_frame =
     [\<lparr>Date = Str ''2024-09-01'', Description = Str ''Salary from ABC Corp'',
       Category = Str ''Income'', Income_Expense = Str ''Income'', Amount = float64_of 6000 1\<rparr>,
      \<lparr>Date = Str ''2024-09-02'', Description = Str ''Grocery shopping at Coles'',
       Category = Str ''Groceries'', Income_Expense = Str ''Expense'', Amount = float64_of 401 2\<rparr>,
      \<lparr>Date = Str ''2024-09-03'', Description = Str ''Sydney Water Bill'',
       Category = Str ''Utilities'', Income_Expense = Str ''Expense'', Amount = float64_of 323 4\<rparr>,
      \<lparr>Date = Str ''2024-09-05'', Description = Str ''Dinner at The Rocks Cafe'',
       Category = Str ''Dining Out'', Income_Expense = Str ''Expense'', Amount = float64_of 60 1\<rparr>,
      \<lparr>Date = Str ''2024-09-06'', Description = Str ''Grocery shopping at Woolworths'',
       Category = Str ''Groceries'', Income_Expense = Str ''Expense'', Amount = float64_of 181 4\<rparr>]"

text \<open>
  Three Expense rows, each with a Category, whose amounts 0.1, 0.1 and 4.35 float64
  adds with rounding.
\<close>

definition rounding_frame :: dataframe where
  "rounding_frame =
     [\<lparr>Date = Str ''2024-09-01'', Description = Str ''Bus fare'',
       Category = Str ''A'', Income_Expense = Str ''Expense'', Amount = float64_of 1 10\<rparr>,
      \<lparr>Date = Str ''2024-09-01'', Description = Str ''Parking'',
       Category = Str ''B'', Income_Expense = Str ''Expense'', Amount = float64_of 1 10\<rparr>,
      \<lparr>Date = Str ''2024-09-02'', Description = Str ''Train ticket'',
       Category = Str ''A'', Income_Expense = Str ''Expense'', Amount = float64_of 435 100\<rparr>]"

text \<open>The same service, answering with a single space.\<close>

definition blank_externals :: externals where
  "blank_externals = sample_externals\<lparr>chat_create := (\<lambda>k model messages. Inr '' '')\<rparr>"

text \<open>The sample table after the classification pass with the sample service.\<close>

definition sample_classified :: dataframe where
  "sample_classified = sample_frame[1 := (sample_frame ! 1)\<lparr>Category := Str ''Fitness''\<rparr>]"

text \<open>The sample world without the API key, and with the flag that selects the sheet.\<close>

definition no_key_world :: world where
  "no_key_world = sample_world\<lparr>environ := Map.empty\<rparr>"

definition sheets_world :: world where
  "sheets_world = sample_world\<lparr>environ := [''USE_GOOGLE_SHEETS'' \<mapsto> ''True'']\<rparr>"

text \<open>
  A world outside in which pdfkit raises after the rendering program has written to the
  output path.
\<close>

definition failing_externals :: externals where
  "failing_externals =
     sample_externals\<lparr>from_string :=
       (\<lambda>html path options fs. (Some (External ''wkhtmltopdf reported an error''), fs(path \<mapsto> ''%PDF-1.4'')))\<rparr>"

section \<open>The float64 values of the examples\<close>

lemmas float64_eval = round_scaled_def round_shift_def round_mantissa_def make_float64_def
  float64_of_def ratio_scale_def ratio_digits_def

lemma sample_amounts:
  "float64_of 6000 1 = Float64 6597069766656000 (- 40)"
  "float64_of 401 2 = Float64 7054466603810816 (- 45)"
  "float64_of 323 4 = Float64 5682276092346368 (- 46)"
  "float64_of 60 1 = Float64 8444249301319680 (- 47)"
  "float64_of 181 4 = Float64 6368371348078592 (- 47)"
  "float64_of 1399 100 = Float64 7875669848364155 (- 49)"
  "float64_of 1 10 = Float64 7205759403792794 (- 56)"
  "float64_of 435 100 = Float64 4897664594765414 (- 50)"
  by (simp_all add: float64_eval)

section \<open>Properties of the aggregator\<close>

lemma group_sums_distinct:
  fixes amount :: "'r \<Rightarrow> rat"
  assumes "distinct ks"
  shows "sum_list (map (\<lambda>k. sum_list (map amount (filter (\<lambda>r. key r = Some k) rows))) ks)
       = sum_list (map amount (filter (\<lambda>r. \<exists>k\<in>set ks. key r = Some k) rows))"
proof (induction rows)
  case Nil
  show ?case by simp
next
  case (Cons r rows)
  have split: "sum_list (map (\<lambda>k. sum_list (map amount (filter (\<lambda>r. key r = Some k) (r # rows)))) ks)
      = sum_list (map (\<lambda>k. if key r = Some k then amount r else 0) ks)
        + sum_list (map (\<lambda>k. sum_list (map amount (filter (\<lambda>r. key r = Some k) rows))) ks)"
    by (induction ks) (simp_all add: algebra_simps)
  have hit: "sum_list (map (\<lambda>k. if key r = Some k then amount r else 0) ks)
      = (if \<exists>k\<in>set ks. key r = Some k then amount r else 0)"
    using assms by (induction ks) auto
  show ?case
    unfolding split hit using Cons.IH by simp
qed

lemma set_group_keys:
  "set (group_keys rows) = {s. \<exists>r\<in>set rows. Category r = Str s}"
  by (auto simp: group_keys_def split: cell.splits)

lemma distinct_group_keys: "distinct (group_keys rows)"
  by (simp add: group_keys_def)

lemma sorted_group_keys: "sorted (group_keys rows)"
  by (simp add: group_keys_def)

lemma category_spending_fst:
  "map fst (category_spending X df) = group_keys (filter (\<lambda>r. Income_Expense r = Str ''Expense'') df)"
  by (simp add: category_spending_def groupby_Category_sum_def comp_def)

lemma category_spending_keys:
  "set (map fst (category_spending X df))
     = {k. \<exists>r\<in>set df. Income_Expense r = Str ''Expense'' \<and> Category r = Str k}"
  by (auto simp: category_spending_fst set_group_keys)

lemma category_spending_entry:
  assumes "(k, v) \<in> set (category_spending X df)"
  shows "v = group_sum X (map Amount
               (filter (\<lambda>r. Income_Expense r = Str ''Expense'' \<and> Category r = Str k) df))"
proof -
  have "filter (\<lambda>r. Category r = Str k) (filter (\<lambda>r. Income_Expense r = Str ''Expense'') df)
      = filter (\<lambda>r. Income_Expense r = Str ''Expense'' \<and> Category r = Str k) df"
    by (simp add: conj_commute)
  with assms show ?thesis
    by (auto simp: category_spending_def groupby_Category_sum_def)
qed

lemma category_spending_exact:
  assumes cats: "\<forall>r\<in>set df. Income_Expense r = Str ''Expense'' \<longrightarrow> Category r \<noteq> NaN"
    and total: "exact_sum (series_sum X)
                  (map Amount (filter (\<lambda>r. Income_Expense r = Str ''Expense'') df))"
    and groups: "\<forall>k\<in>set (map fst (category_spending X df)).
                   exact_sum (group_sum X)
                     (map Amount (filter (\<lambda>r. Income_Expense r = Str ''Expense'' \<and> Category r = Str k) df))"
  shows "sum_list (map (num_value \<circ> snd) (category_spending X df)) = num_value (total_spent X df)"
proof -
  let ?rows = "filter (\<lambda>r. Income_Expense r = Str ''Expense'') df"
  let ?key = "\<lambda>r. case Category r of Str s \<Rightarrow> Some s | NaN \<Rightarrow> None"
  let ?amount = "\<lambda>r. num_value (Amount r)"
  have k: "\<And>r k. (Category r = Str k) = (?key r = Some k)"
    by (simp split: cell.splits)
  have group: "num_value (group_sum X (map Amount (filter (\<lambda>r. Category r = Str k) ?rows)))
             = sum_list (map ?amount (filter (\<lambda>r. ?key r = Some k) ?rows))"
    if "k \<in> set (group_keys ?rows)" for k
  proof -
    have "filter (\<lambda>r. Category r = Str k) ?rows
        = filter (\<lambda>r. Income_Expense r = Str ''Expense'' \<and> Category r = Str k) df"
      by (simp add: conj_commute)
    moreover have "exact_sum (group_sum X)
        (map Amount (filter (\<lambda>r. Income_Expense r = Str ''Expense'' \<and> Category r = Str k) df))"
      using groups that by (simp add: category_spending_fst)
    ultimately show ?thesis
      by (simp add: exact_sum_def comp_def k)
  qed
  have "sum_list (map (num_value \<circ> snd) (category_spending X df))
      = sum_list (map (\<lambda>k. num_value (group_sum X (map Amount (filter (\<lambda>r. Category r = Str k) ?rows))))
                   (group_keys ?rows))"
    by (simp add: category_spending_def groupby_Category_sum_def comp_def)
  also have "\<dots> = sum_list (map (\<lambda>k. sum_list (map ?amount (filter (\<lambda>r. ?key r = Some k) ?rows)))
                   (group_keys ?rows))"
    by (rule arg_cong [where f = sum_list], rule map_cong [OF refl], rule group)
  also have "\<dots> = sum_list (map ?amount (filter (\<lambda>r. \<exists>k\<in>set (group_keys ?rows). ?key r = Some k) ?rows))"
    by (rule group_sums_distinct [OF distinct_group_keys])
  also have "filter (\<lambda>r. \<exists>k\<in>set (group_keys ?rows). ?key r = Some k) ?rows = ?rows"
  proof -
    have "\<forall>r\<in>set ?rows. \<exists>k\<in>set (group_keys ?rows). ?key r = Some k"
    proof
      fix r assume r: "r \<in> set ?rows"
      with cats have "Category r \<noteq> NaN" by simp
      then obtain s where s: "Category r = Str s" by (cases "Category r") simp_all
      with r have "s \<in> set (group_keys ?rows)"
        unfolding set_group_keys by blast
      with s show "\<exists>k\<in>set (group_keys ?rows). ?key r = Some k" by simp
    qed
    then show ?thesis by (simp only: filter_True)
  qed
  also have "sum_list (map ?amount ?rows) = num_value (total_spent X df)"
    using total by (simp add: exact_sum_def total_spent_def comp_def)
  finally show ?thesis .
qed

text \<open>
  C1 (amended). For every table: the total expense is the sum that pandas computes of
  the Amount of the rows whose Income/Expense cell is 'Expense', taken in row order, and
  the total income is that sum for the rows whose cell is 'Income'. The per-category map
  has its keys in sorted order and exactly one entry for each Category value that occurs
  in an Expense row; the entry holds the group sum of the Amount of the Expense rows of
  that Category, in row order. An Expense row without a Category is in no group. If no
  Expense row is without a Category, and neither the total nor any group sum rounds,
  wraps around or overflows, then the entries add up to the total expense.
\<close>

theorem aggregator_totals:
  "total_spent X df
     = series_sum X (map Amount (filter (\<lambda>r. Income_Expense r = Str ''Expense'') df))
   \<and> total_income X df
     = series_sum X (map Amount (filter (\<lambda>r. Income_Expense r = Str ''Income'') df))
   \<and> sorted (map fst (category_spending X df))
   \<and> distinct (map fst (category_spending X df))
   \<and> set (map fst (category_spending X df))
     = {k. \<exists>r\<in>set df. Income_Expense r = Str ''Expense'' \<and> Category r = Str k}
   \<and> (\<forall>(k, v)\<in>set (category_spending X df).
        v = group_sum X (map Amount
              (filter (\<lambda>r. Income_Expense r = Str ''Expense'' \<and> Category r = Str k) df)))
   \<and> ((\<forall>r\<in>set df. Income_Expense r = Str ''Expense'' \<longrightarrow> Category r \<noteq> NaN)
      \<and> exact_sum (series_sum X) (map Amount (filter (\<lambda>r. Income_Expense r = Str ''Expense'') df))
      \<and> (\<forall>k\<in>set (map fst (category_spending X df)).
           exact_sum (group_sum X)
             (map Amount (filter (\<lambda>r. Income_Expense r = Str ''Expense'' \<and> Category r = Str k) df)))
      \<longrightarrow> sum_list (map (num_value \<circ> snd) (category_spending X df)) = num_value (total_spent X df))"
proof (intro conjI)
  show "total_spent X df
     = series_sum X (map Amount (filter (\<lambda>r. Income_Expense r = Str ''Expense'') df))"
    by (simp only: total_spent_def)
  show "total_income X df
     = series_sum X (map Amount (filter (\<lambda>r. Income_Expense r = Str ''Income'') df))"
    by (simp only: total_income_def)
  show "sorted (map fst (category_spending X df))"
    by (simp only: category_spending_fst sorted_group_keys)
  show "distinct (map fst (category_spending X df))"
    by (simp only: category_spending_fst distinct_group_keys)
  show "set (map fst (category_spending X df))
     = {k. \<exists>r\<in>set df. Income_Expense r = Str ''Expense'' \<and> Category r = Str k}"
    by (rule category_spending_keys)
  show "\<forall>(k, v)\<in>set (category_spending X df).
        v = group_sum X (map Amount
              (filter (\<lambda>r. Income_Expense r = Str ''Expense'' \<and> Category r = Str k) df))"
    using category_spending_entry by blast
  show "(\<forall>r\<in>set df. Income_Expense r = Str ''Expense'' \<longrightarrow> Category r \<noteq> NaN)
      \<and> exact_sum (series_sum X) (map Amount (filter (\<lambda>r. Income_Expense r = Str ''Expense'') df))
      \<and> (\<forall>k\<in>set (map fst (category_spending X df)).
           exact_sum (group_sum X)
             (map Amount (filter (\<lambda>r. Income_Expense r = Str ''Expense'' \<and> Category r = Str k) df)))
      \<longrightarrow> sum_list (map (num_value \<circ> snd) (category_spending X df)) = num_value (total_spent X df)"
    using category_spending_exact by blast
qed

lemma exact_frame_figures:
  "total_income sample_externals exact_frame = Float64 6597069766656000 (- 40)"
  "total_spent sample_externals exact_frame = Float64 6799379906166784 (- 44)"
  "category_spending sample_externals exact_frame =
     [(''Dining Out'', Float64 8444249301319680 (- 47)),
      (''Groceries'', Float64 8646559440830464 (- 45)),
      (''Utilities'', Float64 5682276092346368 (- 46))]"
  by (simp_all add: exact_frame_def total_income_def total_spent_def category_spending_def
        groupby_Category_sum_def group_keys_def sample_externals_def float64_sum_def
        sample_amounts round_scaled_def round_shift_def round_mantissa_def make_float64_def)

lemma exact_frame_exact:
  "exact_sum float64_sum [Float64 7054466603810816 (- 45), Float64 5682276092346368 (- 46),
                          Float64 8444249301319680 (- 47), Float64 6368371348078592 (- 47)]"
  "exact_sum float64_sum [Float64 7054466603810816 (- 45), Float64 6368371348078592 (- 47)]"
  "exact_sum float64_sum [Float64 5682276092346368 (- 46)]"
  "exact_sum float64_sum [Float64 8444249301319680 (- 47)]"
  by (simp_all add: exact_sum_def float64_sum_def pow2_def
        round_scaled_def round_shift_def round_mantissa_def make_float64_def)

text \<open>
  C1 on rows whose sums are exact: income 6000.0, expense 386.5, three entries (60.0,
  245.75 and 80.75) that add up to the expense.
\<close>

theorem aggregator_totals_witness:
  "total_income sample_externals exact_frame = float64_of 6000 1
   \<and> total_spent sample_externals exact_frame = float64_of 773 2
   \<and> category_spending sample_externals exact_frame =
       [(''Dining Out'', float64_of 60 1), (''Groceries'', float64_of 983 4),
        (''Utilities'', float64_of 323 4)]
   \<and> exact_sum (series_sum sample_externals)
       (map Amount (filter (\<lambda>r. Income_Expense r = Str ''Expense'') exact_frame))
   \<and> sum_list (map (num_value \<circ> snd) (category_spending sample_externals exact_frame))
       = num_value (total_spent sample_externals exact_frame)
   \<and> num_value (total_spent sample_externals exact_frame) = 773 / 2"
proof -
  have more: "float64_of 773 2 = Float64 6799379906166784 (- 44)"
    "float64_of 983 4 = Float64 8646559440830464 (- 45)"
    by (simp_all add: float64_eval)
  have cats: "\<forall>r\<in>set exact_frame. Income_Expense r = Str ''Expense'' \<longrightarrow> Category r \<noteq> NaN"
    by (simp add: exact_frame_def)
  have total: "exact_sum (series_sum sample_externals)
       (map Amount (filter (\<lambda>r. Income_Expense r = Str ''Expense'') exact_frame))"
    using exact_frame_exact(1) by (simp add: exact_frame_def sample_externals_def sample_amounts)
  have groups: "\<forall>k\<in>set (map fst (category_spending sample_externals exact_frame)).
      exact_sum (group_sum sample_externals)
        (map Amount (filter (\<lambda>r. Income_Expense r = Str ''Expense'' \<and> Category r = Str k) exact_frame))"
    using exact_frame_exact(2-4)
    by (simp add: exact_frame_figures) (simp add: exact_frame_def sample_externals_def sample_amounts)
  from aggregator_totals [of sample_externals exact_frame] cats total groups
  have "sum_list (map (num_value \<circ> snd) (category_spending sample_externals exact_frame))
       = num_value (total_spent sample_externals exact_frame)"
    by blast
  moreover have "num_value (total_spent sample_externals exact_frame) = 773 / 2"
    by (simp add: exact_frame_figures pow2_def)
  ultimately show ?thesis
    using total by (simp add: exact_frame_figures sample_amounts more)
qed

lemma rounding_frame_figures:
  "total_spent sample_externals rounding_frame = Float64 5122844576133939 (- 50)"
  "category_spending sample_externals rounding_frame =
     [(''A'', Float64 5010254585449676 (- 50)), (''B'', Float64 7205759403792794 (- 56))]"
  by (simp_all add: rounding_frame_def total_spent_def category_spending_def
        groupby_Category_sum_def group_keys_def sample_externals_def float64_sum_def
        sample_amounts round_scaled_def round_shift_def round_mantissa_def make_float64_def)

lemma sample_frame_figures:
  "total_spent sample_externals sample_frame = Float64 5193917007753380 (- 44)"
  "category_spending sample_externals sample_frame =
     [([], Float64 7054466603810816 (- 45)), (''Entertainment'', Float64 7875669848364155 (- 49))]"
  by (simp_all add: sample_frame_def total_spent_def category_spending_def
        groupby_Category_sum_def group_keys_def sample_externals_def float64_sum_def
        sample_amounts round_scaled_def round_shift_def round_mantissa_def make_float64_def)

text \<open>
  C1 as stated fails in two ways. At the three rows with the amounts 0.1, 0.1 and 4.35,
  each with a Category, the total expense is 4.55 while the entries are
  4.449999999999999 and 0.1, which add up to 4.549999999999999, exactly and in float64.
  And in the sample table the water bill, an Expense row without a Category, counts in
  the total expense and belongs to no group.
\<close>

theorem category_sums_counterexample:
  "list_all (\<lambda>r. Income_Expense r = Str ''Expense'' \<and> Category r \<noteq> NaN) rounding_frame
   \<and> sum_list (map (num_value \<circ> snd) (category_spending sample_externals rounding_frame))
       \<noteq> num_value (total_spent sample_externals rounding_frame)
   \<and> series_sum sample_externals (map snd (category_spending sample_externals rounding_frame))
       \<noteq> total_spent sample_externals rounding_frame
   \<and> sum_list (map (num_value \<circ> snd) (category_spending sample_externals sample_frame))
       \<noteq> num_value (total_spent sample_externals sample_frame)"
proof (intro conjI)
  show "list_all (\<lambda>r. Income_Expense r = Str ''Expense'' \<and> Category r \<noteq> NaN) rounding_frame"
    by (simp add: rounding_frame_def)
  show "sum_list (map (num_value \<circ> snd) (category_spending sample_externals rounding_frame))
       \<noteq> num_value (total_spent sample_externals rounding_frame)"
    by (simp add: rounding_frame_figures pow2_def)
  show "series_sum sample_externals (map snd (category_spending sample_externals rounding_frame))
       \<noteq> total_spent sample_externals rounding_frame"
  proof -
    have "series_sum sample_externals = float64_sum"
      by (simp add: sample_externals_def)
    then show ?thesis
      by (simp add: rounding_frame_figures float64_sum_def
            round_scaled_def round_shift_def round_mantissa_def make_float64_def)
  qed
  show "sum_list (map (num_value \<circ> snd) (category_spending sample_externals sample_frame))
       \<noteq> num_value (total_spent sample_externals sample_frame)"
    by (simp add: sample_frame_figures pow2_def)
qed

section \<open>The state and the service calls\<close>

lemma frame_emit [simp]: "frame (emit e w) = frame w"
  and environ_emit [simp]: "environ (emit e w) = environ w"
  and files_emit [simp]: "files (emit e w) = files w"
  and trace_emit [simp]: "trace (emit e w) = trace w @ [e]"
  by (simp_all add: emit_def)

lemma chat_calls_emit [simp]:
  "chat_calls (emit e w) = (if is_chat e then Suc (chat_calls w) else chat_calls w)"
  by (simp add: chat_calls_def)

lemma chat_calls_frame_update [simp]: "chat_calls (w\<lparr>frame := df\<rparr>) = chat_calls w"
  by (simp add: chat_calls_def)

lemma new_events_emit [simp]: "new_events w (emit e w) = [e]"
  by (simp add: new_events_def)

lemma new_events_emit2 [simp]: "new_events w (emit e2 (emit e1 w)) = [e1, e2]"
  by (simp add: new_events_def)

section \<open>Properties of the classification pass\<close>

lemma categorize_transaction_unfold:
  "categorize_transaction X d w =
     (case chat_create X (chat_calls w) ''gpt-4o-mini'' (classifier_messages d) of
        Inl e \<Rightarrow> Inl e | Inr c \<Rightarrow> Inr (strip c),
      emit (ChatCompletion ''gpt-4o-mini'' (classifier_messages d)) w)"
  by (simp add: categorize_transaction_def and_then_def ChatCompletion_create_def split: sum.splits)

lemma categorize_rows_Cons:
  "categorize_rows X ((i, r) # rest) w =
     (case chat_create X (chat_calls w) ''gpt-4o-mini'' (classifier_messages (Description r)) of
        Inl e \<Rightarrow> (Inl e, emit (ChatCompletion ''gpt-4o-mini'' (classifier_messages (Description r))) w)
      | Inr c \<Rightarrow>
          categorize_rows X rest
            ((emit (ChatCompletion ''gpt-4o-mini'' (classifier_messages (Description r))) w)
               \<lparr>frame := (frame w)[i := (frame w ! i)\<lparr>Category := Str (strip c)\<rparr>]\<rparr>))"
  by (simp add: categorize_transaction_unfold split: sum.splits)

lemma other_columns_update [simp]:
  "other_columns (df[i := (df ! i)\<lparr>Category := c\<rparr>]) = other_columns df"
proof (cases "i < length df")
  case True
  then show ?thesis
    by (simp add: other_columns_def map_update list_update_same_conv)
next
  case False
  then show ?thesis by (simp add: list_update_beyond)
qed

declare categorize_rows.simps(2) [simp del]

lemma categorize_rows_other_columns:
  "categorize_rows X sel w = (res, w') \<Longrightarrow> other_columns (frame w') = other_columns (frame w)"
proof (induction sel arbitrary: w)
  case Nil
  then show ?case by simp
next
  case (Cons p sel)
  obtain i r where p: "p = (i, r)" by (cases p)
  show ?case
  proof (cases "chat_create X (chat_calls w) ''gpt-4o-mini'' (classifier_messages (Description r))")
    case (Inl e)
    with Cons.prems p show ?thesis by (auto simp: categorize_rows_Cons)
  next
    case (Inr c)
    with Cons.prems p have "categorize_rows X sel
            ((emit (ChatCompletion ''gpt-4o-mini'' (classifier_messages (Description r))) w)
               \<lparr>frame := (frame w)[i := (frame w ! i)\<lparr>Category := Str (strip c)\<rparr>]\<rparr>) = (res, w')"
      by (simp add: categorize_rows_Cons)
    from Cons.IH [OF this] show ?thesis by simp
  qed
qed

lemma categorize_rows_untouched:
  "categorize_rows X sel w = (res, w') \<Longrightarrow> i \<notin> fst ` set sel \<Longrightarrow> frame w' ! i = frame w ! i"
proof (induction sel arbitrary: w)
  case Nil
  then show ?case by simp
next
  case (Cons p sel)
  obtain j r where p: "p = (j, r)" by (cases p)
  with Cons.prems have ne: "j \<noteq> i" and notin: "i \<notin> fst ` set sel" by auto
  show ?case
  proof (cases "chat_create X (chat_calls w) ''gpt-4o-mini'' (classifier_messages (Description r))")
    case (Inl e)
    with Cons.prems p show ?thesis by (auto simp: categorize_rows_Cons)
  next
    case (Inr c)
    with Cons.prems p have "categorize_rows X sel
            ((emit (ChatCompletion ''gpt-4o-mini'' (classifier_messages (Description r))) w)
               \<lparr>frame := (frame w)[j := (frame w ! j)\<lparr>Category := Str (strip c)\<rparr>]\<rparr>) = (res, w')"
      by (simp add: categorize_rows_Cons)
    from Cons.IH [OF this notin] ne show ?thesis by simp
  qed
qed

lemma categorize_rows_stored:
  "categorize_rows X sel w = (Inr u, w') \<Longrightarrow> distinct (map fst sel) \<Longrightarrow>
   \<forall>p\<in>set sel. fst p < length (frame w) \<Longrightarrow> j < length sel \<Longrightarrow>
   \<exists>c. chat_create X (chat_calls w + j) ''gpt-4o-mini'' (classifier_messages (Description (snd (sel ! j)))) = Inr c
      \<and> Category (frame w' ! fst (sel ! j)) = Str (strip c)"
proof (induction sel arbitrary: w j)
  case Nil
  then show ?case by simp
next
  case (Cons p sel)
  obtain i r where p: "p = (i, r)" by (cases p)
  let ?ev = "ChatCompletion ''gpt-4o-mini'' (classifier_messages (Description r))"
  from Cons.prems(1) p obtain c where
    c: "chat_create X (chat_calls w) ''gpt-4o-mini'' (classifier_messages (Description r)) = Inr c"
    by (cases "chat_create X (chat_calls w) ''gpt-4o-mini'' (classifier_messages (Description r))")
       (auto simp: categorize_rows_Cons)
  let ?w1 = "(emit ?ev w)\<lparr>frame := (frame w)[i := (frame w ! i)\<lparr>Category := Str (strip c)\<rparr>]\<rparr>"
  from Cons.prems(1) p c have rest: "categorize_rows X sel ?w1 = (Inr u, w')"
    by (simp add: categorize_rows_Cons)
  from Cons.prems(2) p have d: "distinct (map fst sel)" and notin: "i \<notin> fst ` set sel" by auto
  from Cons.prems(3) p have ilt: "i < length (frame w)"
    and bound: "\<forall>p\<in>set sel. fst p < length (frame ?w1)" by auto
  show ?case
  proof (cases j)
    case 0
    have "frame w' ! i = frame ?w1 ! i"
      by (rule categorize_rows_untouched [OF rest notin])
    with ilt have "Category (frame w' ! i) = Str (strip c)" by simp
    with 0 p c show ?thesis by simp
  next
    case (Suc k)
    with Cons.prems(4) have k: "k < length sel" by simp
    from Cons.IH [OF rest d bound k] Suc show ?thesis by simp
  qed
qed

lemma categorize_rows_trace:
  "categorize_rows X sel w = (Inr u, w') \<Longrightarrow>
   trace w' = trace w @ map (\<lambda>p. ChatCompletion ''gpt-4o-mini'' (classifier_messages (Description (snd p)))) sel"
proof (induction sel arbitrary: w)
  case Nil
  then show ?case by simp
next
  case (Cons p sel)
  obtain i r where p: "p = (i, r)" by (cases p)
  let ?ev = "ChatCompletion ''gpt-4o-mini'' (classifier_messages (Description r))"
  from Cons.prems p obtain c where
    c: "chat_create X (chat_calls w) ''gpt-4o-mini'' (classifier_messages (Description r)) = Inr c"
    by (cases "chat_create X (chat_calls w) ''gpt-4o-mini'' (classifier_messages (Description r))")
       (auto simp: categorize_rows_Cons)
  let ?w1 = "(emit ?ev w)\<lparr>frame := (frame w)[i := (frame w ! i)\<lparr>Category := Str (strip c)\<rparr>]\<rparr>"
  from Cons.prems p c have rest: "categorize_rows X sel ?w1 = (Inr u, w')"
    by (simp add: categorize_rows_Cons)
  from Cons.IH [OF rest] p show ?case by simp
qed

lemma length_filter_enumerate:
  "length (filter (\<lambda>(k, x). P x) (enumerate n xs)) = length (filter P xs)"
  by (induction xs arbitrary: n) simp_all

lemma filter_enumerate_nth:
  assumes "i < length xs" and "P (xs ! i)"
  defines "j \<equiv> length (filter P (take i xs))"
  shows "j < length (filter (\<lambda>(k, x). P x) (enumerate n xs))"
    and "filter (\<lambda>(k, x). P x) (enumerate n xs) ! j = (n + i, xs ! i)"
proof -
  let ?Q = "\<lambda>(k, x). P x"
  have xs: "xs = take i xs @ xs ! i # drop (Suc i) xs"
    using assms(1) by (rule id_take_nth_drop)
  have len: "length (take i xs) = i" using assms(1) by simp
  have "enumerate n xs = enumerate n (take i xs @ xs ! i # drop (Suc i) xs)"
    using xs by simp
  also have "\<dots> = enumerate n (take i xs) @ (n + i, xs ! i) # enumerate (Suc (n + i)) (drop (Suc i) xs)"
    by (simp only: enumerate_append_eq enumerate_simps len)
  finally have "filter ?Q (enumerate n xs)
      = filter ?Q (enumerate n (take i xs)) @ (n + i, xs ! i) # filter ?Q (enumerate (Suc (n + i)) (drop (Suc i) xs))"
    using assms(2) by simp
  moreover have "length (filter ?Q (enumerate n (take i xs))) = j"
    by (simp add: j_def length_filter_enumerate)
  ultimately show "j < length (filter ?Q (enumerate n xs))"
    and "filter ?Q (enumerate n xs) ! j = (n + i, xs ! i)"
    by (simp_all add: nth_append)
qed

lemma uncategorized_set:
  "p \<in> set (uncategorized df) \<longleftrightarrow>
     fst p < length df \<and> snd p = df ! fst p \<and> Category (df ! fst p) = Str []"
  by (cases p) (auto simp: uncategorized_def in_set_enumerate_eq)

lemma uncategorized_distinct: "distinct (map fst (uncategorized df))"
  by (simp add: uncategorized_def distinct_map_filter)

lemma uncategorized_nth:
  assumes "i < length df" and "Category (df ! i) = Str []"
  shows "length (filter (\<lambda>r. Category r = Str []) (take i df)) < length (uncategorized df)"
    and "uncategorized df ! length (filter (\<lambda>r. Category r = Str []) (take i df)) = (i, df ! i)"
  using filter_enumerate_nth [of i df "\<lambda>r. Category r = Str []" 0, OF assms]
  by (simp_all add: uncategorized_def)

lemma categorize_transactions_unfold:
  "categorize_transactions X w =
     (case categorize_rows X (uncategorized (frame w)) w of
        (Inl e, w') \<Rightarrow> (Inl e, w') | (Inr u, w') \<Rightarrow> (Inr (frame w'), w'))"
  by (simp add: categorize_transactions_def and_then_def)

lemma categorize_transactions_result:
  assumes "categorize_transactions X w = (Inr df', w')"
  shows "categorize_rows X (uncategorized (frame w)) w = (Inr (), w')" and "df' = frame w'"
  using assms by (auto simp: categorize_transactions_unfold split: prod.splits sum.splits)

lemma strip_eq_Nil: "strip c = [] \<longleftrightarrow> (\<forall>ch\<in>set c. isspace ch)"
proof
  assume "strip c = []"
  then have "\<forall>ch\<in>set (dropWhile isspace c). isspace ch"
    by (simp add: strip_def dropWhile_eq_Nil_conv)
  then have "dropWhile isspace c = []"
    by (metis hd_dropWhile hd_in_set)
  then show "\<forall>ch\<in>set c. isspace ch"
    by (simp add: dropWhile_eq_Nil_conv)
next
  assume "\<forall>ch\<in>set c. isspace ch"
  then show "strip c = []" by (auto simp: strip_def dest: set_dropWhileD)
qed

lemma other_columns_nth:
  assumes "other_columns df' = other_columns df" and "i < length df"
  shows "Date (df' ! i) = Date (df ! i) \<and> Description (df' ! i) = Description (df ! i)
       \<and> Income_Expense (df' ! i) = Income_Expense (df ! i) \<and> Amount (df' ! i) = Amount (df ! i)"
proof -
  from assms(1) have len: "length df' = length df"
    by (metis length_map other_columns_def)
  from assms(1) have "other_columns df' ! i = other_columns df ! i" by simp
  with assms(2) len have "(df' ! i)\<lparr>Category := NaN\<rparr> = (df ! i)\<lparr>Category := NaN\<rparr>"
    by (simp add: other_columns_def)
  then show ?thesis
    by (metis transaction.select_convs transaction.surjective transaction.update_convs(3))
qed

text \<open>
  C10. The classification pass changes the Category column only: whether it returns or
  raises, the table has as many rows as before and every row has its Date, Description,
  Income/Expense and Amount of before, at the same position. What the pass returns is
  the table of the state.
\<close>

theorem categorize_transactions_frame:
  assumes "categorize_transactions X w = (res, w')"
  shows "length (frame w') = length (frame w)
       \<and> (\<forall>i<length (frame w).
            Date (frame w' ! i) = Date (frame w ! i)
          \<and> Description (frame w' ! i) = Description (frame w ! i)
          \<and> Income_Expense (frame w' ! i) = Income_Expense (frame w ! i)
          \<and> Amount (frame w' ! i) = Amount (frame w ! i))
       \<and> (\<forall>df'. res = Inr df' \<longrightarrow> df' = frame w')"
proof -
  obtain r where rows: "categorize_rows X (uncategorized (frame w)) w = (r, w')"
    using assms by (auto simp: categorize_transactions_unfold split: prod.splits sum.splits)
  have oc: "other_columns (frame w') = other_columns (frame w)"
    by (rule categorize_rows_other_columns [OF rows])
  then have "length (frame w') = length (frame w)"
    by (metis length_map other_columns_def)
  moreover have "\<forall>i<length (frame w).
            Date (frame w' ! i) = Date (frame w ! i)
          \<and> Description (frame w' ! i) = Description (frame w ! i)
          \<and> Income_Expense (frame w' ! i) = Income_Expense (frame w ! i)
          \<and> Amount (frame w' ! i) = Amount (frame w ! i)"
    using other_columns_nth [OF oc] by blast
  moreover have "\<forall>df'. res = Inr df' \<longrightarrow> df' = frame w'"
    using assms by (auto simp: categorize_transactions_unfold split: prod.splits sum.splits)
  ultimately show ?thesis by blast
qed

lemma categorized_kept:
  assumes "categorize_transactions X w = (Inr df', w')"
    and "Category (frame w ! i) \<noteq> Str []" and "i < length (frame w)"
  shows "df' ! i = frame w ! i"
proof -
  note run = categorize_transactions_result [OF assms(1)]
  have "i \<notin> fst ` set (uncategorized (frame w))"
    using assms(2) by (auto simp: uncategorized_set)
  from categorize_rows_untouched [OF run(1) this] run(2) show ?thesis by simp
qed

lemma uncategorized_stored:
  assumes "categorize_transactions X w = (Inr df', w')"
    and "i < length (frame w)" and "Category (frame w ! i) = Str []"
  shows "\<exists>c. chat_create X
               (chat_calls w + length (filter (\<lambda>r. Category r = Str []) (take i (frame w))))
               ''gpt-4o-mini'' (classifier_messages (Description (frame w ! i))) = Inr c
            \<and> Category (df' ! i) = Str (strip c)"
proof -
  note run = categorize_transactions_result [OF assms(1)]
  let ?sel = "uncategorized (frame w)"
  let ?j = "length (filter (\<lambda>r. Category r = Str []) (take i (frame w)))"
  have j: "?j < length ?sel" and at: "?sel ! ?j = (i, frame w ! i)"
    using uncategorized_nth [OF assms(2,3)] by simp_all
  have "\<forall>p\<in>set ?sel. fst p < length (frame w)"
    by (simp add: uncategorized_set)
  from categorize_rows_stored [OF run(1) uncategorized_distinct this j] at run(2)
  show ?thesis by simp
qed

text \<open>
  What the pass does to the Category column when every call of the service succeeded: a
  row that is not selected has its Category of before; and if every text the service
  returns has a character that is not white space, then a selected row, whose Category
  was the empty string, has a Category that is not empty.
\<close>

lemma categorize_transactions_categories:
  assumes "categorize_transactions X w = (Inr df', w')"
  shows "(\<forall>i<length (frame w). Category (frame w ! i) \<noteq> Str [] \<longrightarrow>
            Category (df' ! i) = Category (frame w ! i))
       \<and> ((\<forall>k ms c. chat_create X k ''gpt-4o-mini'' ms = Inr c \<longrightarrow> (\<exists>ch\<in>set c. \<not> isspace ch)) \<longrightarrow>
          (\<forall>i<length (frame w). Category (frame w ! i) = Str [] \<longrightarrow>
             (\<exists>s. Category (df' ! i) = Str s \<and> s \<noteq> [])))"
proof (intro conjI impI allI)
  fix i assume "i < length (frame w)" and "Category (frame w ! i) \<noteq> Str []"
  with categorized_kept [OF assms] show "Category (df' ! i) = Category (frame w ! i)" by simp
next
  fix i
  assume label: "\<forall>k ms c. chat_create X k ''gpt-4o-mini'' ms = Inr c \<longrightarrow> (\<exists>ch\<in>set c. \<not> isspace ch)"
    and i: "i < length (frame w)" "Category (frame w ! i) = Str []"
  from uncategorized_stored [OF assms i] obtain k ms c
    where c: "chat_create X k ''gpt-4o-mini'' ms = Inr c" and cat: "Category (df' ! i) = Str (strip c)"
    by blast
  from label c have "\<exists>ch\<in>set c. \<not> isspace ch" by blast
  then have "strip c \<noteq> []" by (simp add: strip_eq_Nil)
  with cat show "\<exists>s. Category (df' ! i) = Str s \<and> s \<noteq> []" by blast
qed

text \<open>
  C3 (amended). A pass in which every call succeeds sends one request for each row
  whose Category is the empty string, in row order, with the row's description. For such
  a row it stores the text that the service returned to the row's request, with the white
  space at both ends removed and with no other change; nothing compares the text with the
  categories of the system prompt. The row's request is the call whose number is the
  number of earlier calls plus the number of uncategorized rows above the row.
\<close>

theorem categorize_transactions_stores_stripped:
  assumes "categorize_transactions X w = (Inr df', w')"
  shows "new_events w w'
           = map (\<lambda>(index, row). ChatCompletion ''gpt-4o-mini'' (classifier_messages (Description row)))
               (uncategorized (frame w))
       \<and> (\<forall>i<length (frame w). Category (frame w ! i) = Str [] \<longrightarrow>
            (\<exists>c. chat_create X
                    (chat_calls w + length (filter (\<lambda>r. Category r = Str []) (take i (frame w))))
                    ''gpt-4o-mini'' (classifier_messages (Description (frame w ! i))) = Inr c
                 \<and> Category (df' ! i) = Str (strip c)))"
proof
  note run = categorize_transactions_result [OF assms]
  have "trace w' = trace w @ map (\<lambda>p. ChatCompletion ''gpt-4o-mini'' (classifier_messages (Description (snd p))))
                               (uncategorized (frame w))"
    by (rule categorize_rows_trace [OF run(1)])
  then show "new_events w w'
           = map (\<lambda>(index, row). ChatCompletion ''gpt-4o-mini'' (classifier_messages (Description row)))
               (uncategorized (frame w))"
    by (simp add: new_events_def case_prod_unfold)
  show "\<forall>i<length (frame w). Category (frame w ! i) = Str [] \<longrightarrow>
            (\<exists>c. chat_create X
                    (chat_calls w + length (filter (\<lambda>r. Category r = Str []) (take i (frame w))))
                    ''gpt-4o-mini'' (classifier_messages (Description (frame w ! i))) = Inr c
                 \<and> Category (df' ! i) = Str (strip c))"
    using uncategorized_stored [OF assms] by blast
qed

text \<open>The pass on the sample table, with the sample service and with the blank one.\<close>

lemma sample_run:
  "categorize_transactions sample_externals sample_world =
     (Inr sample_classified,
      sample_world\<lparr>frame := sample_classified,
                   trace := [ChatCompletion ''gpt-4o-mini'' (classifier_messages (Str ''Grocery shopping at Coles''))]\<rparr>)"
  by (simp add: categorize_transactions_unfold uncategorized_def sample_world_def sample_frame_def
        sample_classified_def categorize_rows_Cons sample_externals_def chat_calls_def emit_def
        strip_def isspace_def)

lemma blank_run:
  "categorize_transactions blank_externals sample_world =
     (Inr sample_frame,
      sample_world\<lparr>trace := [ChatCompletion ''gpt-4o-mini'' (classifier_messages (Str ''Grocery shopping at Coles''))]\<rparr>)"
  by (simp add: categorize_transactions_unfold uncategorized_def sample_world_def sample_frame_def
        categorize_rows_Cons blank_externals_def sample_externals_def chat_calls_def emit_def
        strip_def isspace_def)

text \<open>C10 on the sample table: four rows before and after, the amount of row 1 as before.\<close>

theorem categorize_transactions_frame_witness:
  "categorize_transactions sample_externals sample_world
     = (Inr sample_classified, snd (categorize_transactions sample_externals sample_world))
   \<and> length (frame (snd (categorize_transactions sample_externals sample_world))) = 4
   \<and> Category (frame (snd (categorize_transactions sample_externals sample_world)) ! 1) = Str ''Fitness''
   \<and> Amount (frame (snd (categorize_transactions sample_externals sample_world)) ! 1) = float64_of 401 2"
proof -
  let ?w' = "snd (categorize_transactions sample_externals sample_world)"
  have run: "categorize_transactions sample_externals sample_world = (Inr sample_classified, ?w')"
    by (simp add: sample_run)
  have before: "length (frame sample_world) = 4" "Amount (frame sample_world ! 1) = float64_of 401 2"
    by (simp_all add: sample_world_def sample_frame_def)
  from categorize_transactions_frame [OF run]
  have len: "length (frame ?w') = length (frame sample_world)"
    and amt: "\<forall>i<length (frame sample_world). Amount (frame ?w' ! i) = Amount (frame sample_world ! i)"
    and fr: "sample_classified = frame ?w'"
    by blast+
  have "length (frame ?w') = 4"
    using len before by simp
  moreover have "Amount (frame ?w' ! 1) = float64_of 401 2"
    using amt before by simp
  moreover have "Category (frame ?w' ! 1) = Str ''Fitness''"
    unfolding fr [symmetric] by (simp add: sample_classified_def sample_frame_def)
  ultimately have "length (frame ?w') = 4 \<and> Category (frame ?w' ! 1) = Str ''Fitness''
      \<and> Amount (frame ?w' ! 1) = float64_of 401 2"
    by blast
  with run show ?thesis by blast
qed

text \<open>
  The condition on the replies is needed: when a call succeeds with a blank text, the
  row's Category is the empty string afterwards as well.
\<close>

lemma blank_reply_stays_empty:
  "fst (categorize_transactions blank_externals sample_world)
     = Inr (frame (snd (categorize_transactions blank_externals sample_world)))
   \<and> chat_create blank_externals 0 ''gpt-4o-mini''
        (classifier_messages (Description (frame sample_world ! 1))) = Inr '' ''
   \<and> Category (frame sample_world ! 1) = Str []
   \<and> Category (frame (snd (categorize_transactions blank_externals sample_world)) ! 1) = Str []"
  by (simp add: blank_run) (simp add: sample_world_def sample_frame_def blank_externals_def)

text \<open>
  C2 fails at a row whose Category is missing, which is what read_csv makes of a blank
  Category field: the pass selects the rows whose Category equals the empty string, so
  the row is not selected, no request is sent for it, and its Category is missing after
  the pass as before. In the sample table the pass returns, its one request is for the
  row with the empty string, and the water bill has no Category afterwards.
\<close>

theorem missing_category_not_classified:
  "Category (frame sample_world ! 2) = NaN
   \<and> Description (frame sample_world ! 2) = Str ''Sydney Water Bill''
   \<and> fst (categorize_transactions sample_externals sample_world) = Inr sample_classified
   \<and> Category (sample_classified ! 2) = NaN
   \<and> new_events sample_world (snd (categorize_transactions sample_externals sample_world))
       = [ChatCompletion ''gpt-4o-mini'' (classifier_messages (Str ''Grocery shopping at Coles''))]"
  by (simp add: sample_run new_events_def) (simp add: sample_world_def sample_frame_def sample_classified_def)

text \<open>The same for every table, every service and every outcome of the pass.\<close>

lemma missing_category_stays:
  assumes "categorize_transactions X w = (res, w')"
    and "i < length (frame w)" and "Category (frame w ! i) = NaN"
  shows "frame w' ! i = frame w ! i"
    and "i \<notin> fst ` set (uncategorized (frame w))"
proof -
  show notin: "i \<notin> fst ` set (uncategorized (frame w))"
    using assms(3) by (auto simp: uncategorized_set)
  obtain r where rows: "categorize_rows X (uncategorized (frame w)) w = (r, w')"
    using assms(1) by (auto simp: categorize_transactions_unfold split: prod.splits sum.splits)
  show "frame w' ! i = frame w ! i"
    by (rule categorize_rows_untouched [OF rows notin])
qed

text \<open>
  C3 on the sample table: row 1 holds the stripped reply, a label that the system prompt
  does not list.
\<close>

theorem categorize_transactions_stores_stripped_witness:
  "categorize_transactions sample_externals sample_world
     = (Inr sample_classified, snd (categorize_transactions sample_externals sample_world))
   \<and> 1 < length (frame sample_world) \<and> Category (frame sample_world ! 1) = Str []
   \<and> Category (sample_classified ! 1) = Str (strip ('' Fitness'' @ nl))"
proof -
  have before: "1 < length (frame sample_world)" "Category (frame sample_world ! 1) = Str []"
    by (simp_all add: sample_world_def sample_frame_def)
  from categorize_transactions_stores_stripped [OF sample_run] before
  have "\<exists>c. chat_create sample_externals
               (chat_calls sample_world
                  + length (filter (\<lambda>r. Category r = Str []) (take 1 (frame sample_world))))
               ''gpt-4o-mini'' (classifier_messages (Description (frame sample_world ! 1))) = Inr c
            \<and> Category (sample_classified ! 1) = Str (strip c)"
    by blast
  then have "Category (sample_classified ! 1) = Str (strip ('' Fitness'' @ nl))"
    by (simp add: sample_externals_def)
  with before show ?thesis by (simp add: sample_run)
qed

text \<open>
  C3 as stated fails: the reply has a leading space and a trailing line break, the
  stored Category has neither.
\<close>

theorem verbatim_counterexample:
  "fst (categorize_transactions sample_externals sample_world)
     = Inr (frame (snd (categorize_transactions sample_externals sample_world)))
   \<and> Category (frame sample_world ! 1) = Str []
   \<and> chat_create sample_externals 0 ''gpt-4o-mini''
        (classifier_messages (Description (frame sample_world ! 1))) = Inr ('' Fitness'' @ nl)
   \<and> Category (frame (snd (categorize_transactions sample_externals sample_world)) ! 1) = Str ''Fitness''
   \<and> Category (frame (snd (categorize_transactions sample_externals sample_world)) ! 1)
        \<noteq> Str ('' Fitness'' @ nl)"
  by (simp add: sample_run) (simp add: sample_world_def sample_frame_def sample_externals_def sample_classified_def)

section \<open>Properties of the string substitutions\<close>

declare replace_from.simps [simp del]

lemma replace_from_Nil [simp]: "replace_from old new [] = []"
  by (simp add: replace_from.simps)

lemma replace_from_hit:
  "old \<noteq> [] \<Longrightarrow> prefix old (c # s) \<Longrightarrow>
   replace_from old new (c # s) = new @ replace_from old new (drop (length old) (c # s))"
  by (subst replace_from.simps) simp

lemma replace_from_miss:
  "\<not> prefix old (c # s) \<Longrightarrow> replace_from old new (c # s) = c # replace_from old new s"
  by (subst replace_from.simps) (auto simp: replace_from.simps [of "[]"])

text \<open>A prefix of the result that shares no character with new is a prefix of the input.\<close>

lemma prefix_replace_from:
  "old \<noteq> [] \<Longrightarrow> new \<noteq> [] \<Longrightarrow> set p \<inter> set new = {} \<Longrightarrow>
   prefix p (replace_from old new s) \<Longrightarrow> prefix p s"
proof (induction s arbitrary: p)
  case Nil
  then show ?case by simp
next
  case (Cons c t)
  show ?case
  proof (cases p)
    case Nil
    then show ?thesis by simp
  next
    case p: (Cons x q)
    show ?thesis
    proof (cases "prefix old (c # t)")
      case True
      obtain n ns where new: "new = n # ns" using Cons.prems(2) by (cases new) auto
      from True Cons.prems(1,4) p new have "x = n"
        by (simp add: replace_from_hit)
      with Cons.prems(3) p new show ?thesis by auto
    next
      case False
      with Cons.prems(4) p have "x = c" and "prefix q (replace_from old new t)"
        by (simp_all add: replace_from_miss)
      moreover from Cons.prems(3) p have "set q \<inter> set new = {}" by auto
      ultimately show ?thesis
        using Cons.IH [OF Cons.prems(1,2)] p by simp
    qed
  qed
qed

lemma sublist_skip:
  "pat \<noteq> [] \<Longrightarrow> set pat \<inter> set new = {} \<Longrightarrow> sublist pat (new @ ys) = sublist pat ys"
proof (induction new)
  case Nil
  then show ?case by simp
next
  case (Cons n ns)
  then have "\<not> prefix pat (n # ns @ ys)"
    by (cases pat) auto
  with Cons show ?case by (simp add: sublist_Cons_right)
qed

lemma sublist_drop: "sublist pat (drop k s) \<Longrightarrow> sublist pat s"
  by (metis append_take_drop_id sublist_append_leftI sublist_order.order.trans)

text \<open>Replacing does not create an occurrence of a pattern that shares no character with new.\<close>

lemma replace_from_preserves:
  assumes "old \<noteq> []" and "new \<noteq> []" and "pat \<noteq> []" and "set pat \<inter> set new = {}"
  shows "\<not> sublist pat s \<Longrightarrow> \<not> sublist pat (replace_from old new s)"
proof (induction "length s" arbitrary: s rule: less_induct)
  case less
  show ?case
  proof (cases s)
    case Nil
    with assms(3) show ?thesis by simp
  next
    case s: (Cons c t)
    show ?thesis
    proof (cases "prefix old (c # t)")
      case True
      have "length (drop (length old) s) < length s"
        using assms(1) s by simp
      moreover have "\<not> sublist pat (drop (length old) s)"
        using less.prems sublist_drop by blast
      ultimately have "\<not> sublist pat (replace_from old new (drop (length old) s))"
        by (rule less.hyps)
      with True assms s show ?thesis
        by (simp add: replace_from_hit sublist_skip)
    next
      case False
      from less.prems s have nt: "\<not> sublist pat t" and np: "\<not> prefix pat (c # t)"
        by (simp_all add: sublist_Cons_right)
      have "\<not> sublist pat (replace_from old new t)"
        using less.hyps [of t] s nt by simp
      moreover have "\<not> prefix pat (replace_from old new (c # t))"
        using prefix_replace_from [OF assms(1,2,4)] np by blast
      ultimately show ?thesis
        using False s by (simp add: replace_from_miss sublist_Cons_right)
    qed
  qed
qed

text \<open>No occurrence of old is left when new shares no character with old.\<close>

lemma replace_from_removes:
  assumes "old \<noteq> []" and "new \<noteq> []" and "set old \<inter> set new = {}"
  shows "\<not> sublist old (replace_from old new s)"
proof (induction "length s" arbitrary: s rule: less_induct)
  case less
  show ?case
  proof (cases s)
    case Nil
    with assms(1) show ?thesis by simp
  next
    case s: (Cons c t)
    show ?thesis
    proof (cases "prefix old (c # t)")
      case True
      have "length (drop (length old) s) < length s"
        using assms(1) s by simp
      then have "\<not> sublist old (replace_from old new (drop (length old) s))"
        by (rule less.hyps)
      with True assms s show ?thesis
        by (simp add: replace_from_hit sublist_skip)
    next
      case False
      have "\<not> sublist old (replace_from old new t)"
        using less.hyps [of t] s by simp
      moreover have "\<not> prefix old (replace_from old new (c # t))"
        using prefix_replace_from [OF assms(1,2,3)] False by blast
      ultimately show ?thesis
        using False s by (simp add: replace_from_miss sublist_Cons_right)
    qed
  qed
qed

text \<open>Removing the bold marker.\<close>

lemma replace_from_bold_removes: "\<not> sublist ''**'' (replace_from ''**'' [] s)"
proof (induction "length s" arbitrary: s rule: less_induct)
  case less
  show ?case
  proof (cases s)
    case Nil
    then show ?thesis by simp
  next
    case s: (Cons c t)
    show ?thesis
    proof (cases "prefix ''**'' (c # t)")
      case True
      have "length (drop 2 s) < length s" using s by simp
      then have IH: "\<not> sublist ''**'' (replace_from ''**'' [] (drop 2 s))"
        by (rule less.hyps)
      have "replace_from ''**'' [] (c # t) = [] @ replace_from ''**'' [] (drop (length ''**'') (c # t))"
        by (rule replace_from_hit [OF _ True]) simp
      then have "replace_from ''**'' [] s = replace_from ''**'' [] (drop 2 s)"
        using s by simp
      with IH show ?thesis by simp
    next
      case False
      have IH: "\<not> sublist ''**'' (replace_from ''**'' [] t)"
        using less.hyps [of t] s by simp
      have "\<not> prefix ''**'' (c # replace_from ''**'' [] t)"
      proof
        assume a: "prefix ''**'' (c # replace_from ''**'' [] t)"
        then have c: "c = CHR ''*''" and p: "prefix ''*'' (replace_from ''**'' [] t)" by auto
        show False
        proof (cases t)
          case Nil
          with p show False by simp
        next
          case t: (Cons d u)
          show False
          proof (cases "prefix ''**'' (d # u)")
            case True
            with False c t show False by simp
          next
            case miss: False
            with p t have "d = CHR ''*''" by (simp add: replace_from_miss)
            with False c t show False by simp
          qed
        qed
      qed
      with IH False s show ?thesis
        by (simp add: replace_from_miss sublist_Cons_right)
    qed
  qed
qed

lemma replace_from_id: "\<not> sublist old s \<Longrightarrow> replace_from old new s = s"
proof (induction s)
  case Nil
  then show ?case by simp
next
  case (Cons c t)
  then have "\<not> prefix old (c # t)" and "\<not> sublist old t"
    by (simp_all add: sublist_Cons_right)
  with Cons.IH show ?case by (simp add: replace_from_miss)
qed

lemma py_format_template:
  "py_format html_template [a, b] = Some (html_head @ a @ html_mid @ b @ html_tail)"
  by (simp add: html_template_def html_head_def html_mid_def html_tail_def)

section \<open>Properties of the loader\<close>

text \<open>
  C5. When no file is at the path of the CSV input, load_from_csv raises
  FileNotFoundError after the one look at the path: it returns no table, read_csv is not
  called, and the state is as before but for the event. With the flag not selecting the
  sheet, load_data is this call.
\<close>

theorem load_from_csv_missing:
  assumes "files w csv_path = None"
  shows "load_from_csv X w
           = (Inl (FileNotFoundError ''The file ../data/data.csv does not exist.''),
              w\<lparr>trace := trace w @ [PathExists ''../data/data.csv'']\<rparr>)
       \<and> (\<not> use_google_sheets w \<longrightarrow> load_data X w = load_from_csv X w)"
  using assms by (simp add: load_from_csv_def load_data_def csv_path_def emit_def)

text \<open>C5 in the sample world, whose file system is empty.\<close>

theorem load_from_csv_missing_witness:
  "files sample_world csv_path = None
   \<and> fst (load_from_csv sample_externals sample_world)
        = Inl (FileNotFoundError ''The file ../data/data.csv does not exist.'')
   \<and> frame (snd (load_from_csv sample_externals sample_world)) = sample_frame
   \<and> trace (snd (load_from_csv sample_externals sample_world)) = [PathExists ''../data/data.csv'']"
proof -
  have absent: "files sample_world csv_path = None"
    by (simp add: sample_world_def)
  from load_from_csv_missing [OF absent, of sample_externals]
  have "load_from_csv sample_externals sample_world
           = (Inl (FileNotFoundError ''The file ../data/data.csv does not exist.''),
              sample_world\<lparr>trace := trace sample_world @ [PathExists ''../data/data.csv'']\<rparr>)"
    by blast
  with absent show ?thesis by (simp add: sample_world_def)
qed

lemma lower_true: "lower ''True'' = ''true''"
  by code_simp

lemma lower_false: "lower ''false'' \<noteq> ''true''"
  by (simp add: lower_def lower_char_def)

text \<open>
  C8. load_data reads one source. The flag selects the sheet exactly when
  USE_GOOGLE_SHEETS is set to a value whose lower-case form is 'true'. If it does, the
  result is that of load_from_google_sheets and no event of the call consults the file;
  otherwise, and so when the variable is not set, the result is that of load_from_csv and
  no event of the call consults the sheet.
\<close>

theorem load_data_one_source:
  "(use_google_sheets w \<longrightarrow>
      load_data X w = load_from_google_sheets X w
      \<and> \<not> list_ex consults_file (new_events w (snd (load_data X w))))
   \<and> (\<not> use_google_sheets w \<longrightarrow>
      load_data X w = load_from_csv X w
      \<and> \<not> list_ex consults_sheet (new_events w (snd (load_data X w))))
   \<and> (environ w ''USE_GOOGLE_SHEETS'' = None \<longrightarrow> \<not> use_google_sheets w)
   \<and> (use_google_sheets w \<longleftrightarrow> (\<exists>v. environ w ''USE_GOOGLE_SHEETS'' = Some v \<and> lower v = ''true''))"
proof (intro conjI impI)
  assume "use_google_sheets w"
  then show "load_data X w = load_from_google_sheets X w"
    by (simp add: load_data_def)
  then show "\<not> list_ex consults_file (new_events w (snd (load_data X w)))"
    by (simp add: load_from_google_sheets_def Let_def)
next
  assume "\<not> use_google_sheets w"
  then show "load_data X w = load_from_csv X w"
    by (simp add: load_data_def)
  then show "\<not> list_ex consults_sheet (new_events w (snd (load_data X w)))"
    by (simp add: load_from_csv_def Let_def split: option.splits)
next
  assume "environ w ''USE_GOOGLE_SHEETS'' = None"
  then show "\<not> use_google_sheets w"
    using lower_false by (simp add: use_google_sheets_def getenv_default_def)
next
  show "use_google_sheets w \<longleftrightarrow> (\<exists>v. environ w ''USE_GOOGLE_SHEETS'' = Some v \<and> lower v = ''true'')"
    using lower_false by (auto simp: use_google_sheets_def getenv_default_def split: option.splits)
qed

text \<open>
  C8 in the sample world (variable not set: the file) and in the world where the
  variable is 'True' (the sheet, and the one event is the sheet's).
\<close>

theorem load_data_one_source_witness:
  "environ sample_world ''USE_GOOGLE_SHEETS'' = None
   \<and> load_data sample_externals sample_world = load_from_csv sample_externals sample_world
   \<and> use_google_sheets sheets_world
   \<and> load_data sample_externals sheets_world = load_from_google_sheets sample_externals sheets_world
   \<and> new_events sheets_world (snd (load_data sample_externals sheets_world)) = [GoogleSheets None None]"
proof -
  have unset: "environ sample_world ''USE_GOOGLE_SHEETS'' = None"
    by (simp add: sample_world_def)
  have flag: "use_google_sheets sheets_world"
    by (simp add: use_google_sheets_def getenv_default_def sheets_world_def lower_true)
  from load_data_one_source [of sample_world sample_externals] unset
  have a: "load_data sample_externals sample_world = load_from_csv sample_externals sample_world"
    by blast
  from load_data_one_source [of sheets_world sample_externals] flag
  have b: "load_data sample_externals sheets_world = load_from_google_sheets sample_externals sheets_world"
    by blast
  have "new_events sheets_world (snd (load_from_google_sheets sample_externals sheets_world))
          = [GoogleSheets None None]"
    by (simp add: load_from_google_sheets_def getenv_def sheets_world_def)
  with unset flag a b show ?thesis by simp
qed

section \<open>Properties of the setup cell\<close>

text \<open>
  C6. When OPENAI_API_KEY is neither in the process environment nor in the .env file,
  the run ends in the setup cell with the ValueError: no event has happened, and the file
  system and the table are as before.
\<close>

theorem notebook_missing_api_key:
  assumes "environ w ''OPENAI_API_KEY'' = None" and "dotenv_values X ''OPENAI_API_KEY'' = None"
  shows "notebook X w
           = (Inl (ValueError ''OpenAI API key is not set. Please check your .env file.''),
              w\<lparr>environ := dotenv_values X ++ environ w\<rparr>)
       \<and> new_events w (snd (notebook X w)) = []
       \<and> files (snd (notebook X w)) = files w
       \<and> frame (snd (notebook X w)) = frame w"
proof -
  have "setup_cell X w
           = (Inl (ValueError ''OpenAI API key is not set. Please check your .env file.''),
              w\<lparr>environ := dotenv_values X ++ environ w\<rparr>)"
    using assms by (simp add: setup_cell_def load_dotenv_def getenv_def map_add_def)
  then have "notebook X w
           = (Inl (ValueError ''OpenAI API key is not set. Please check your .env file.''),
              w\<lparr>environ := dotenv_values X ++ environ w\<rparr>)"
    by (simp add: notebook_def and_then_def)
  then show ?thesis by (simp add: new_events_def)
qed

text \<open>C6 in the sample world without the key.\<close>

theorem notebook_missing_api_key_witness:
  "environ no_key_world ''OPENAI_API_KEY'' = None
   \<and> dotenv_values sample_externals ''OPENAI_API_KEY'' = None
   \<and> fst (notebook sample_externals no_key_world)
        = Inl (ValueError ''OpenAI API key is not set. Please check your .env file.'')
   \<and> trace (snd (notebook sample_externals no_key_world)) = []"
proof -
  have absent: "environ no_key_world ''OPENAI_API_KEY'' = None"
    "dotenv_values sample_externals ''OPENAI_API_KEY'' = None"
    by (simp_all add: no_key_world_def sample_externals_def)
  from notebook_missing_api_key [OF absent]
  have "notebook sample_externals no_key_world
           = (Inl (ValueError ''OpenAI API key is not set. Please check your .env file.''),
              no_key_world\<lparr>environ := dotenv_values sample_externals ++ environ no_key_world\<rparr>)"
    by blast
  with absent show ?thesis by (simp add: no_key_world_def sample_world_def)
qed

text \<open>With the key the run goes on to the loader (which finds no file in the sample world).\<close>

lemma notebook_sample_run:
  "notebook sample_externals sample_world
     = (Inl (FileNotFoundError ''The file ../data/data.csv does not exist.''),
        sample_world\<lparr>trace := [PathExists ''../data/data.csv'']\<rparr>)"
proof -
  have "setup_cell sample_externals sample_world = (Inr ''sk-test'', sample_world)"
    by (simp add: setup_cell_def load_dotenv_def getenv_def sample_externals_def sample_world_def)
  moreover have "load_data sample_externals sample_world
     = (Inl (FileNotFoundError ''The file ../data/data.csv does not exist.''),
        sample_world\<lparr>trace := [PathExists ''../data/data.csv'']\<rparr>)"
    using lower_false
    by (simp add: load_data_def use_google_sheets_def getenv_default_def load_from_csv_def
          csv_path_def emit_def sample_world_def)
  ultimately show ?thesis by (simp add: notebook_def and_then_def)
qed

section \<open>The aggregator run twice\<close>

lemma generate_financial_summary_unfold:
  "generate_financial_summary X w =
     (case chat_create X (chat_calls w) ''gpt-4o-mini'' (summary_messages X (frame w)) of
        Inl e \<Rightarrow> Inl e | Inr c \<Rightarrow> Inr (strip c),
      emit (ChatCompletion ''gpt-4o-mini'' (summary_messages X (frame w))) w)"
  by (simp add: generate_financial_summary_def and_then_def ChatCompletion_create_def split: sum.splits)

text \<open>
  C9. generate_financial_summary does not change the table, and its three figures are
  functions of the table alone. So a second run on the unchanged table computes the same
  total income, total expense and per-category map, and sends the request of the first
  run again, whatever the service answered.
\<close>

theorem generate_financial_summary_idempotent:
  assumes "generate_financial_summary X w = (r1, w1)"
    and "generate_financial_summary X w1 = (r2, w2)"
  shows "frame w1 = frame w \<and> frame w2 = frame w
       \<and> total_income X (frame w1) = total_income X (frame w)
       \<and> total_spent X (frame w1) = total_spent X (frame w)
       \<and> category_spending X (frame w1) = category_spending X (frame w)
       \<and> new_events w w1 = [ChatCompletion ''gpt-4o-mini'' (summary_messages X (frame w))]
       \<and> new_events w1 w2 = new_events w w1"
proof -
  from assms(1) have w1: "w1 = emit (ChatCompletion ''gpt-4o-mini'' (summary_messages X (frame w))) w"
    by (simp add: generate_financial_summary_unfold)
  from assms(2) have w2: "w2 = emit (ChatCompletion ''gpt-4o-mini'' (summary_messages X (frame w1))) w1"
    by (simp add: generate_financial_summary_unfold)
  from w1 have f1: "frame w1 = frame w" by simp
  with w2 have f2: "frame w2 = frame w" by simp
  from w1 have e1: "new_events w w1 = [ChatCompletion ''gpt-4o-mini'' (summary_messages X (frame w))]"
    by simp
  from w2 f1 have e2: "new_events w1 w2 = [ChatCompletion ''gpt-4o-mini'' (summary_messages X (frame w))]"
    by simp
  from f1 f2 e1 e2 show ?thesis by simp
qed

text \<open>C9 on the sample table, run twice.\<close>

theorem generate_financial_summary_idempotent_witness:
  "frame (snd (generate_financial_summary sample_externals sample_world)) = sample_frame
   \<and> new_events sample_world (snd (generate_financial_summary sample_externals sample_world))
        = [ChatCompletion ''gpt-4o-mini'' (summary_messages sample_externals sample_frame)]
   \<and> new_events (snd (generate_financial_summary sample_externals sample_world))
        (snd (generate_financial_summary sample_externals
                (snd (generate_financial_summary sample_externals sample_world))))
        = [ChatCompletion ''gpt-4o-mini'' (summary_messages sample_externals sample_frame)]
   \<and> total_spent sample_externals
        (frame (snd (generate_financial_summary sample_externals sample_world)))
        = total_spent sample_externals sample_frame"
proof -
  let ?g1 = "generate_financial_summary sample_externals sample_world"
  let ?g2 = "generate_financial_summary sample_externals (snd ?g1)"
  have 1: "?g1 = (fst ?g1, snd ?g1)" and 2: "?g2 = (fst ?g2, snd ?g2)" by simp_all
  have fr: "frame sample_world = sample_frame" by (simp add: sample_world_def)
  from generate_financial_summary_idempotent [OF 1 2] fr show ?thesis by simp
qed

section \<open>Properties of the report renderer\<close>

lemma replace_chain:
  "replace nl ''<br>'' (replace ''###'' ''<h3>'' (replace ''**'' [] s)) = spec_substitutions s"
  by (simp add: spec_substitutions_def)

lemma html_content_eq:
  "html_content summary advice
     = Some (html_head @ spec_substitutions summary @ html_mid @ spec_substitutions advice @ html_tail)"
  by (simp only: html_content_def replace_chain py_format_template)

lemma spec_substitutions_from:
  "spec_substitutions s = replace_from nl ''<br>'' (replace_from ''###'' ''<h3>'' (replace_from ''**'' [] s))"
  by (simp add: spec_substitutions_def replace_def)

lemma spec_substitutions_no_bold: "\<not> sublist ''**'' (spec_substitutions s)"
  unfolding spec_substitutions_from
  by (intro replace_from_preserves replace_from_bold_removes) simp_all

lemma spec_substitutions_no_heading: "\<not> sublist ''###'' (spec_substitutions s)"
  unfolding spec_substitutions_from
  by (intro replace_from_preserves replace_from_removes) simp_all

lemma spec_substitutions_no_newline: "CHR 0x0A \<notin> set (spec_substitutions s)"
proof -
  have "\<not> sublist nl (spec_substitutions s)"
    unfolding spec_substitutions_from by (intro replace_from_removes) simp_all
  then show ?thesis
    by (metis append_Cons append_Nil in_set_conv_decomp sublist_appendI)
qed

lemma spec_substitutions_id:
  assumes "\<not> sublist ''**'' s" and "\<not> sublist ''###'' s" and "CHR 0x0A \<notin> set s"
  shows "spec_substitutions s = s"
proof -
  have "\<not> sublist nl s"
  proof
    assume "sublist nl s"
    then obtain ps ss where "s = ps @ nl @ ss" by (auto simp: sublist_def)
    with assms(3) show False by simp
  qed
  with assms(1,2) show ?thesis
    by (simp add: spec_substitutions_from replace_from_id)
qed

lemma create_pdf_report_unfold:
  "create_pdf_report X summary advice output_path w =
     (let html = html_head @ spec_substitutions summary @ html_mid @ spec_substitutions advice @ html_tail;
          w1 = emit (PdfFromString html output_path pdf_options)
                 (w\<lparr>files := snd (from_string X html output_path pdf_options (files w))\<rparr>)
      in case fst (from_string X html output_path pdf_options (files w)) of
           Some e \<Rightarrow> (Inl e, w1)
         | None \<Rightarrow> (Inr (), emit (Print (''PDF report generated: '' @ output_path)) w1))"
  by (simp add: create_pdf_report_def html_content_eq Let_def split: prod.splits option.splits)

text \<open>
  C4. The page that create_pdf_report hands to pdfkit is the fixed template with the
  summary and the advice in its two places, each after the three substitutions: the bold
  marker removed, the heading marker replaced by the heading tag, each line break
  replaced by the line-break tag. After them no bold marker, no heading marker and no
  line break is left in the text, and a text that has none of the three is not changed.
\<close>

theorem create_pdf_report_substitutions:
  "html_content summary advice
     = Some (html_head @ spec_substitutions summary @ html_mid @ spec_substitutions advice @ html_tail)
   \<and> (\<exists>rest. new_events w (snd (create_pdf_report X summary advice output_path w))
         = PdfFromString
             (html_head @ spec_substitutions summary @ html_mid @ spec_substitutions advice @ html_tail)
             output_path pdf_options # rest)
   \<and> \<not> sublist ''**'' (spec_substitutions s)
   \<and> \<not> sublist ''###'' (spec_substitutions s)
   \<and> CHR 0x0A \<notin> set (spec_substitutions s)
   \<and> (\<not> sublist ''**'' s \<and> \<not> sublist ''###'' s \<and> CHR 0x0A \<notin> set s \<longrightarrow> spec_substitutions s = s)"
proof (intro conjI impI)
  show "\<exists>rest. new_events w (snd (create_pdf_report X summary advice output_path w))
         = PdfFromString
             (html_head @ spec_substitutions summary @ html_mid @ spec_substitutions advice @ html_tail)
             output_path pdf_options # rest"
    by (simp add: create_pdf_report_unfold Let_def new_events_def emit_def split: option.splits)
qed (simp_all only: html_content_eq spec_substitutions_no_bold spec_substitutions_no_heading
       spec_substitutions_no_newline spec_substitutions_id not_False_eq_True)

text \<open>
  C7 (amended). When the call of pdfkit raises, create_pdf_report raises the same
  exception and prints nothing. The function writes and removes no file of its own: the
  file system afterwards is the one that pdfkit left.
\<close>

theorem create_pdf_report_failure:
  assumes "from_string X
             (html_head @ spec_substitutions summary @ html_mid @ spec_substitutions advice @ html_tail)
             output_path pdf_options (files w) = (Some e, files')"
  shows "create_pdf_report X summary advice output_path w
           = (Inl e,
              w\<lparr>files := files',
                 trace := trace w @ [PdfFromString
                   (html_head @ spec_substitutions summary @ html_mid @ spec_substitutions advice @ html_tail)
                   output_path pdf_options]\<rparr>)"
  using assms by (simp add: create_pdf_report_unfold Let_def emit_def)

text \<open>The three substitutions on a text that has all three tokens.\<close>

lemma sample_substitutions:
  "spec_substitutions (''**Total**'' @ nl @ ''### Income'') = ''Total<br><h3> Income''"
  by (simp add: spec_substitutions_from replace_from_hit replace_from_miss)

text \<open>C4 on a plain text, which stays as it is, and on the text with the three tokens.\<close>

theorem create_pdf_report_substitutions_witness:
  "\<not> sublist ''**'' ''Income: $6000'' \<and> \<not> sublist ''###'' ''Income: $6000''
   \<and> CHR 0x0A \<notin> set ''Income: $6000''
   \<and> spec_substitutions ''Income: $6000'' = ''Income: $6000''
   \<and> spec_substitutions (''**Total**'' @ nl @ ''### Income'') = ''Total<br><h3> Income''"
proof -
  have plain: "\<not> sublist ''**'' ''Income: $6000''" "\<not> sublist ''###'' ''Income: $6000''"
    "CHR 0x0A \<notin> set ''Income: $6000''"
    by (simp_all add: sublist_Cons_right)
  from create_pdf_report_substitutions [of "[]" "[]" sample_world sample_externals "[]" "''Income: $6000''"] plain
  have "spec_substitutions ''Income: $6000'' = ''Income: $6000''"
    by blast
  with plain sample_substitutions show ?thesis by blast
qed

text \<open>C7 with the failing pdfkit of the samples.\<close>

theorem create_pdf_report_failure_witness:
  "from_string failing_externals
     (html_head @ spec_substitutions ''Summary'' @ html_mid @ spec_substitutions ''Advice'' @ html_tail)
     ''financial_report.pdf'' pdf_options (files sample_world)
     = (Some (External ''wkhtmltopdf reported an error''),
        (files sample_world)(''financial_report.pdf'' \<mapsto> ''%PDF-1.4''))
   \<and> fst (create_pdf_report failing_externals ''Summary'' ''Advice'' ''financial_report.pdf'' sample_world)
        = Inl (External ''wkhtmltopdf reported an error'')
   \<and> trace (snd (create_pdf_report failing_externals ''Summary'' ''Advice'' ''financial_report.pdf'' sample_world))
        = [PdfFromString
            (html_head @ spec_substitutions ''Summary'' @ html_mid @ spec_substitutions ''Advice'' @ html_tail)
            ''financial_report.pdf'' pdf_options]"
proof -
  have fails: "from_string failing_externals
     (html_head @ spec_substitutions ''Summary'' @ html_mid @ spec_substitutions ''Advice'' @ html_tail)
     ''financial_report.pdf'' pdf_options (files sample_world)
     = (Some (External ''wkhtmltopdf reported an error''),
        (files sample_world)(''financial_report.pdf'' \<mapsto> ''%PDF-1.4''))"
    by (simp add: failing_externals_def)
  from create_pdf_report_failure [OF fails] fails show ?thesis
    by (simp add: sample_world_def)
qed

text \<open>
  C7 as stated fails: pdfkit gives the output path to the rendering program, which
  writes the file itself, and raises when the program reports an error. The file that was
  not there before the failed call is there after it.
\<close>

theorem partial_output_counterexample:
  "fst (create_pdf_report failing_externals ''Summary'' ''Advice'' ''financial_report.pdf'' sample_world)
        = Inl (External ''wkhtmltopdf reported an error'')
   \<and> files sample_world ''financial_report.pdf'' = None
   \<and> files (snd (create_pdf_report failing_externals ''Summary'' ''Advice'' ''financial_report.pdf'' sample_world))
        ''financial_report.pdf'' = Some ''%PDF-1.4''"
  by (simp add: create_pdf_report_unfold Let_def failing_externals_def sample_world_def)

end
